theory Spec2Isabelle
  imports Complex_Main
begin

section \<open>JavaScript strings\<close>

text \<open>
  A JavaScript string is a sequence of UTF-16 code units; it is modelled as the list of
  these code units, each a natural number. All Korean text of the scripts lies in the
  Basic Multilingual Plane, so one syllable is one code unit. \<open>ascii\<close> turns an
  ASCII literal into its code units.

  \<open>str_includes s p\<close> is \<open>s.includes(p)\<close>: \<open>p\<close> occurs in \<open>s\<close> as a contiguous
  run. \<open>str_trim\<close> is \<open>s.trim()\<close>: it removes the white space and line terminators of
  ECMAScript from both ends.
\<close>

type_synonym jsstring = "nat list"

abbreviation ascii :: "string \<Rightarrow> jsstring" where
  "ascii s \<equiv> map of_char s"

fun startsWith :: "jsstring \<Rightarrow> jsstring \<Rightarrow> bool" where
  "startsWith s [] = True"
| "startsWith [] (p # ps) = False"
| "startsWith (c # cs) (p # ps) = (c = p \<and> startsWith cs ps)"

fun str_includes :: "jsstring \<Rightarrow> jsstring \<Rightarrow> bool" where
  "str_includes [] p = (p = [])"
| "str_includes (c # cs) p = (startsWith (c # cs) p \<or> str_includes cs p)"

definition isWhiteSpace :: "nat \<Rightarrow> bool" where
  "isWhiteSpace c =
     (c = 9 \<or> c = 10 \<or> c = 11 \<or> c = 12 \<or> c = 13 \<or> c = 32 \<or> c = 160 \<or> c = 5760 \<or>
      (8192 \<le> c \<and> c \<le> 8202) \<or> c = 8232 \<or> c = 8233 \<or> c = 8239 \<or> c = 8287 \<or>
      c = 12288 \<or> c = 65279)"

definition str_trim :: "jsstring \<Rightarrow> jsstring" where
  "str_trim s = rev (dropWhile isWhiteSpace (rev (dropWhile isWhiteSpace s)))"

subsection \<open>The string literals of the scripts\<close>

text \<open>
  Each literal is given by its code units, with a romanisation and a gloss:
  \<^item> \<open>kr_ohu\<close>: o-hu, "afternoon"; \<open>kr_ojeon\<close>: o-jeon, "morning";
  \<^item> \<open>kr_yeyak\<close>: ye-yak, "booking"; \<open>kr_daegi\<close>: dae-gi, "waiting";
    \<open>kr_wanryo\<close>: wan-ryo, "complete"; \<open>kr_bulga\<close>: bul-ga, "not possible";
  \<^item> \<open>kr_yeyakwanryo\<close>: "booking complete"; \<open>kr_daegiwanryo\<close>: "waiting complete";
    \<open>kr_sakje\<close>: sak-je, "delete"; \<open>kr_chwiso\<close>: chwi-so, "cancel";
  \<^item> \<open>kr_yeyakhagi\<close>: "book now"; \<open>kr_daegiyeyak\<close>: "waitlist booking";
    \<open>kr_yeyakbulga\<close>: "booking not possible";
  \<^item> \<open>kr_jeongwon_chogwa\<close>: jeong-won-i cho-gwa, "capacity exceeded";
    \<open>kr_yoilbyeol_wanryo\<close>: yo-il-byeol ye-yak-hoet-su-ga wan-ryo, "the booking count of
    the weekday is complete"; \<open>kr_dongsisincheong\<close>: dong-si-sin-cheong, "simultaneous
    request"; \<open>kr_jamsi_hu\<close>: jam-si hu, "shortly after"; \<open>kr_seonggong\<close>: "success";
  \<^item> \<open>kr_daegiyeyak_question\<close>: "do you want a waitlist booking";
    \<open>kr_naljja_seontaek\<close>: nal-jja-reul seon-taek, "select a date";
    \<open>kr_siganchogwa\<close>: si-gan-cho-gwa, "time exceeded"; \<open>kr_deungrok\<close>: "register";
    \<open>kr_no_time_selected\<close>: "no time slot is selected";
    \<open>kr_select_booking\<close>: "make a booking selection";
    \<open>kr_not_registered\<close>: "is not registered";
  \<^item> \<open>kr_hwagin\<close>: hwa-gin, "confirm"; \<open>kr_taim_seontaek\<close>: ta-im seon-taek, "time slot
    selection".
\<close>

abbreviation kr_ohu :: jsstring where "kr_ohu \<equiv> [50724, 54980]"
abbreviation kr_ojeon :: jsstring where "kr_ojeon \<equiv> [50724, 51204]"
abbreviation kr_yeyak :: jsstring where "kr_yeyak \<equiv> [50696, 50557]"
abbreviation kr_daegi :: jsstring where "kr_daegi \<equiv> [45824, 44592]"
abbreviation kr_wanryo :: jsstring where "kr_wanryo \<equiv> [50756, 47308]"
abbreviation kr_bulga :: jsstring where "kr_bulga \<equiv> [48520, 44032]"
abbreviation kr_yeyakwanryo :: jsstring where "kr_yeyakwanryo \<equiv> [50696, 50557, 50756, 47308]"
abbreviation kr_daegiwanryo :: jsstring where "kr_daegiwanryo \<equiv> [45824, 44592, 50756, 47308]"
abbreviation kr_sakje :: jsstring where "kr_sakje \<equiv> [49325, 51228]"
abbreviation kr_chwiso :: jsstring where "kr_chwiso \<equiv> [52712, 49548]"
abbreviation kr_yeyakhagi :: jsstring where "kr_yeyakhagi \<equiv> [50696, 50557, 54616, 44592]"
abbreviation kr_daegiyeyak :: jsstring where "kr_daegiyeyak \<equiv> [45824, 44592, 50696, 50557]"
abbreviation kr_yeyakbulga :: jsstring where "kr_yeyakbulga \<equiv> [50696, 50557, 48520, 44032]"
abbreviation kr_jeongwon_chogwa :: jsstring where
  "kr_jeongwon_chogwa \<equiv> [51221, 50896, 51060, 32, 52488, 44284]"
abbreviation kr_yoilbyeol_wanryo :: jsstring where
  "kr_yoilbyeol_wanryo \<equiv>
     [50836, 51068, 48324, 32, 50696, 50557, 54943, 49688, 44032, 32, 50756, 47308]"
abbreviation kr_dongsisincheong :: jsstring where
  "kr_dongsisincheong \<equiv> [46041, 49884, 49888, 52397]"
abbreviation kr_jamsi_hu :: jsstring where "kr_jamsi_hu \<equiv> [51104, 49884, 32, 54980]"
abbreviation kr_seonggong :: jsstring where "kr_seonggong \<equiv> [49457, 44277]"
abbreviation kr_daegiyeyak_question :: jsstring where
  "kr_daegiyeyak_question \<equiv>
     [45824, 44592, 50696, 50557, 51012, 32, 54616, 49884, 44192, 49845, 45768, 44620]"
abbreviation kr_naljja_seontaek :: jsstring where
  "kr_naljja_seontaek \<equiv> [45216, 51676, 47484, 32, 49440, 53469]"
abbreviation kr_siganchogwa :: jsstring where "kr_siganchogwa \<equiv> [49884, 44036, 52488, 44284]"
abbreviation kr_deungrok :: jsstring where "kr_deungrok \<equiv> [46321, 47197]"
abbreviation kr_no_time_selected :: jsstring where
  "kr_no_time_selected \<equiv>
     [49440, 53469, 46108, 32, 53440, 51076, 51060, 32, 50630, 49845, 45768, 45796]"
abbreviation kr_select_booking :: jsstring where
  "kr_select_booking \<equiv> [50696, 50557, 49440, 53469, 51012, 32, 54616, 49901, 49884, 50724]"
abbreviation kr_not_registered :: jsstring where
  "kr_not_registered \<equiv>
     [46321, 47197, 46104, 50612, 32, 51080, 51648, 32, 50506, 49845, 45768, 45796]"
abbreviation kr_hwagin :: jsstring where "kr_hwagin \<equiv> [54869, 51064]"
abbreviation kr_taim_seontaek :: jsstring where
  "kr_taim_seontaek \<equiv> [53440, 51076, 32, 49440, 53469]"

text \<open>The time labels \<open>09:30\<close>, \<open>9:30\<close> and their Korean spellings "09 si 30 bun".\<close>

abbreviation t0930 :: jsstring where "t0930 \<equiv> ascii ''09:30''"
abbreviation t930 :: jsstring where "t930 \<equiv> ascii ''9:30''"
abbreviation kr_09si30bun :: jsstring where "kr_09si30bun \<equiv> [48, 57, 49884, 51, 48, 48516]"
abbreviation kr_9si30bun :: jsstring where "kr_9si30bun \<equiv> [57, 49884, 51, 48, 48516]"

section \<open>The page as the scripts read it\<close>

text \<open>
  The scan of the time table runs inside the page (\<open>page.evaluate\<close>) over
  \<open>document.querySelectorAll('tr')\<close>. Of a row it reads \<open>textContent\<close> and the
  \<open>td\<close> cells; of a cell it reads \<open>textContent\<close> and whether
  \<open>querySelector('a')\<close> finds a link.
\<close>

record td_cell =
  textContent :: jsstring
  anchor :: bool

record tr_row =
  rowText :: jsstring
  cells :: "td_cell list"

text \<open>
  The object the scan returns. A property the script does not set is \<open>undefined\<close>,
  which every test of the scripts reads as false: the record holds \<open>False\<close> there.
\<close>

record scan_result =
  found :: bool
  booked :: bool
  alreadyBooked :: bool
  isWaiting :: bool
  unavailable :: bool
  isWaitingOnly :: bool
  needSubmit :: bool
  message :: jsstring

text \<open>
  What the script does to the page: a click on the link of the action cell of row \<open>i\<close>,
  a click on the \<open>k\<close>-th candidate submit element, or \<open>forms[0].submit()\<close>.
\<close>

datatype page_event = ClickLink nat | ClickSubmit nat | SubmitForm

primrec firstIndex :: "('a \<Rightarrow> bool) \<Rightarrow> 'a list \<Rightarrow> nat option" where
  "firstIndex P [] = None"
| "firstIndex P (x # xs) = (if P x then Some 0 else map_option Suc (firstIndex P xs))"

subsection \<open>Messages of the scan results\<close>

text \<open>
  \<open>msg_already w\<close> is the template "09:30 su-eop i-mi ... wan-ryo" (class 09:30 already
  ... complete) with "waitlist booking" or "booking" in the hole;
  \<open>msg_click\<close> "class 09:30 booking click"; \<open>msg_wait_click\<close> "class 09:30 waitlist
  booking click"; \<open>msg_wait\<close> "class 09:30 waitlist booking"; \<open>msg_unavailable\<close>
  "class 09:30 booking not possible (capacity exceeded)"; \<open>msg_not_found\<close> "class 09:30
  cannot be found".
\<close>

definition msg_already :: "bool \<Rightarrow> jsstring" where
  "msg_already w =
     t0930 @ [32, 49688, 50629, 32, 51060, 48120, 32] @
     (if w then kr_daegiyeyak else kr_yeyak) @ [32, 50756, 47308]"

definition msg_click :: jsstring where
  "msg_click = t0930 @ [32, 49688, 50629, 32, 50696, 50557, 32, 53364, 47533]"

definition msg_wait_click :: jsstring where
  "msg_wait_click =
     t0930 @ [32, 49688, 50629, 32, 45824, 44592, 50696, 50557, 32, 53364, 47533]"

definition msg_wait :: jsstring where
  "msg_wait = t0930 @ [32, 49688, 50629, 32, 45824, 44592, 50696, 50557]"

definition msg_unavailable :: jsstring where
  "msg_unavailable =
     t0930 @ [32, 49688, 50629, 32, 50696, 50557, 48520, 44032, 32, 40, 51221, 50896, 32,
              52488, 44284, 41]"

definition msg_not_found :: jsstring where
  "msg_not_found =
     t0930 @ [32, 49688, 50629, 51012, 32, 52286, 51012, 32, 49688, 32, 50630, 51020]"

definition notFound :: scan_result where
  "notFound =
     \<lparr>found = False, booked = False, alreadyBooked = False, isWaiting = False,
      unavailable = False, isWaitingOnly = False, needSubmit = False,
      message = msg_not_found\<rparr>"

section \<open>PreciseTimingPilatesBooking (booking-script.js, lines 8 to 949)\<close>

subsection \<open>The scan of the time table (lines 567 to 661)\<close>

definition rowMatches :: "jsstring \<Rightarrow> bool" where
  "rowMatches t =
     ((str_includes t t0930 \<or> str_includes t t930) \<and>
      \<not> str_includes t kr_ohu \<and> \<not> str_includes t (ascii ''PM''))"

definition isTimeCell :: "jsstring \<Rightarrow> bool" where
  "isTimeCell cellText =
     (cellText = kr_ojeon @ ascii '' 09:30'' \<or> cellText = kr_ojeon @ ascii '' 9:30'' \<or>
      str_includes cellText t0930 \<or> str_includes cellText t930)"

definition actionCell :: "td_cell list \<Rightarrow> nat \<Rightarrow> td_cell" where
  "actionCell cs j =
     (let lastCell = cs ! (length cs - 1) in
      if j < length cs - 1 then
        (let nextCell = cs ! (j + 1) in
         if str_includes (textContent nextCell) kr_yeyak \<or>
            str_includes (textContent nextCell) kr_daegi \<or>
            str_includes (textContent nextCell) kr_wanryo \<or>
            str_includes (textContent nextCell) kr_bulga
         then nextCell else lastCell)
      else lastCell)"

text \<open>The test "already booked" on the trimmed text of the action cell.\<close>

definition readsComplete :: "jsstring \<Rightarrow> bool" where
  "readsComplete actionText =
     (str_includes actionText kr_yeyakwanryo \<or> str_includes actionText kr_daegiwanryo \<or>
      str_includes actionText kr_sakje \<or> str_includes actionText kr_chwiso)"

text \<open>
  The inner loop over the cells of a row stops at the first cell whose trimmed text is a
  time label (\<open>break\<close>). \<open>slotCell row\<close> is the action cell the scan reads for a
  row: \<open>None\<close> when the row fails the row test, has fewer than three cells or has no
  time cell.
\<close>

definition slotCell :: "tr_row \<Rightarrow> td_cell option" where
  "slotCell row =
     (if rowMatches (rowText row) \<and> 3 \<le> length (cells row) then
        (case firstIndex (\<lambda>c. isTimeCell (str_trim (textContent c))) (cells row) of
           None \<Rightarrow> None
         | Some j \<Rightarrow> Some (actionCell (cells row) j))
      else None)"

text \<open>
  The body of the loop over the rows, for row \<open>i\<close>: \<open>Some\<close> is a \<open>return\<close> of the
  scan, with the clicks made; \<open>None\<close> goes on to the next row.
\<close>

definition PT_examineRow :: "nat \<Rightarrow> tr_row \<Rightarrow> (scan_result \<times> page_event list) option" where
  "PT_examineRow i row =
     (case slotCell row of
        None \<Rightarrow> None
      | Some cell \<Rightarrow>
            (let actionText = str_trim (textContent cell)
             in
               if readsComplete actionText then
                 Some (\<lparr>found = True, booked = False, alreadyBooked = True,
                        isWaiting = str_includes actionText kr_daegiwanryo,
                        unavailable = False, isWaitingOnly = False, needSubmit = False,
                        message = msg_already (str_includes actionText kr_daegiwanryo)\<rparr>, [])
               else if str_includes actionText kr_yeyakhagi then
                 (if anchor cell then
                    Some (\<lparr>found = True, booked = True, alreadyBooked = False,
                           isWaiting = False, unavailable = False, isWaitingOnly = False,
                           needSubmit = True, message = msg_click\<rparr>, [ClickLink i])
                  else None)
               else if str_includes actionText kr_daegiyeyak then
                 (if anchor cell then
                    Some (\<lparr>found = True, booked = True, alreadyBooked = False,
                           isWaiting = False, unavailable = False, isWaitingOnly = True,
                           needSubmit = False, message = msg_wait_click\<rparr>, [ClickLink i])
                  else None)
               else if str_includes actionText kr_yeyakbulga then
                 Some (\<lparr>found = True, booked = False, alreadyBooked = False,
                        isWaiting = False, unavailable = True, isWaitingOnly = False,
                        needSubmit = False, message = msg_unavailable\<rparr>, [])
               else None))"

fun PT_scanRows :: "nat \<Rightarrow> tr_row list \<Rightarrow> scan_result \<times> page_event list" where
  "PT_scanRows i [] = (notFound, [])"
| "PT_scanRows i (row # rows) =
     (case PT_examineRow i row of
        Some r \<Rightarrow> r
      | None \<Rightarrow> PT_scanRows (i + 1) rows)"

subsection \<open>The flags of the instance and the dialog handler (lines 30 to 35, 522 to 562)\<close>

text \<open>
  The constructor of this class declares three flags. The classes of the other two
  scripts declare a fourth, \<open>hasTimeoutError\<close>.
\<close>

record flags3 =
  bookingSuccess :: bool
  isWaitingReservation :: bool
  hasConflictError :: bool

record flags4 = flags3 +
  hasTimeoutError :: bool

text \<open>
  The handler is a closure over the local variable \<open>dialogHandled\<close> and the instance.
  Its state is the pair of both; its result says whether \<open>dialog.accept()\<close> was called.
  The handlers of PreciseTimingPilatesBooking (lines 523 to 562) and of
  GitHubOptimizedPilatesBooking (part_000, lines 305 to 344) are the same code up to the
  text they log; \<open>dialogHandler\<close> embeds both, over any record that extends
  \<open>flags3\<close>.
\<close>

definition dialogHandler ::
  "jsstring \<Rightarrow> bool \<times> 'a flags3_scheme \<Rightarrow> bool \<times> (bool \<times> 'a flags3_scheme)" where
  "dialogHandler msg hs =
     (let dialogHandled = fst hs; st = snd hs in
      if \<not> dialogHandled then
        (if str_includes msg kr_jeongwon_chogwa \<and> str_includes msg kr_daegiyeyak then
           (True, (True, st\<lparr>isWaitingReservation := True, bookingSuccess := True\<rparr>))
         else if str_includes msg kr_yoilbyeol_wanryo then
           (True, (True, st\<lparr>bookingSuccess := True\<rparr>))
         else if str_includes msg kr_dongsisincheong \<or> str_includes msg kr_jamsi_hu then
           (True, (True, st\<lparr>hasConflictError := True\<rparr>))
         else if str_includes msg kr_yeyak \<and>
                 (str_includes msg kr_wanryo \<or> str_includes msg kr_seonggong) then
           (True, (True, st\<lparr>bookingSuccess := True\<rparr>))
         else (True, (True, st)))
      else (True, (dialogHandled, st)))"

text \<open>
  The dialogs of the page are raised one after the other (a dialog blocks the page until
  it is closed); the handler runs once for each, in order. The result lists which of them
  were accepted.
\<close>

fun handleDialogs :: "(jsstring \<Rightarrow> 's \<Rightarrow> bool \<times> 's) \<Rightarrow> jsstring list \<Rightarrow> 's \<Rightarrow> bool list \<times> 's" where
  "handleDialogs h [] s = ([], s)"
| "handleDialogs h (m # ms) s =
     (let r = h m s; rs = handleDialogs h ms (snd r) in (fst r # fst rs, snd rs))"

subsection \<open>One booking attempt on the time table (lines 506 to 747)\<close>

text \<open>
  What the page answers during one call of \<open>find0930ClassAndBook\<close>: the rows of the
  document, the dialogs the page raises when the link of the slot is clicked, the texts
  (\<open>elem.value || elem.textContent || ''\<close>) of the candidate submit elements in the
  order of the script's list, the number of forms, and the dialogs the page raises after
  the submit and before the script reads its flags. Dialogs are raised in answer to the
  clicks only.
\<close>

record find_env =
  pageRows :: "tr_row list"
  linkDialogs :: "jsstring list"
  submitTexts :: "jsstring list"
  formCount :: nat
  submitDialogs :: "jsstring list"

definition isSubmitText :: "jsstring \<Rightarrow> bool" where
  "isSubmitText t =
     (str_includes t kr_yeyak \<or> str_includes t kr_hwagin \<or> str_includes t kr_deungrok \<or>
      t = ascii ''Submit'')"

text \<open>
  The submit step (the same code in the three scripts): \<open>Some\<close> is what was invoked
  when \<open>submitSuccess\<close> is true, \<open>None\<close> stands for false.
\<close>

definition submitStep :: "'a find_env_scheme \<Rightarrow> page_event option" where
  "submitStep env =
     (case firstIndex (\<lambda>t. isSubmitText (str_trim t)) (submitTexts env) of
        Some k \<Rightarrow> Some (ClickSubmit k)
      | None \<Rightarrow> if 0 < formCount env then Some SubmitForm else None)"

text \<open>The message of the error thrown on a conflict: "simultaneous request collision occurred".\<close>

definition PT_err_conflict :: jsstring where
  "PT_err_conflict = [46041, 49884, 49888, 52397, 32, 52649, 46028, 32, 48156, 49373]"

text \<open>
  \<open>Inl\<close> is the error thrown (and rethrown by the \<open>catch\<close> of the method), \<open>Inr\<close>
  the object returned. The second component is the flags of the instance afterwards, the
  third the clicks made on the page.
\<close>

definition PT_find0930ClassAndBook ::
  "bool \<Rightarrow> 'e find_env_scheme \<Rightarrow> flags3 \<Rightarrow> (jsstring + scan_result) \<times> flags3 \<times> page_event list" where
  "PT_find0930ClassAndBook testing env st =
     (let st0 = st\<lparr>hasConflictError := False\<rparr>;
          scan = PT_scanRows 0 (pageRows env);
          result = fst scan;
          ev1 = snd scan;
          hs1 = snd (handleDialogs dialogHandler
                       (if ev1 = [] then [] else linkDialogs env) (False, st0));
          st1 = snd hs1
      in
        if unavailable result then (Inr result, st1, ev1)
        else if alreadyBooked result then
          (Inr result,
           (if isWaiting result
            then st1\<lparr>bookingSuccess := True, isWaitingReservation := True\<rparr>
            else st1\<lparr>bookingSuccess := True\<rparr>),
           ev1)
        else if booked result then
          (if isWaitingOnly result then (Inr result, st1, ev1)
           else if needSubmit result \<and> \<not> testing then
             (case submitStep env of
                Some ev2 \<Rightarrow>
                  (let st2 = snd (snd (handleDialogs dialogHandler (submitDialogs env) hs1)) in
                   if hasConflictError st2 then (Inl PT_err_conflict, st2, ev1 @ [ev2])
                   else (Inr result, st2, ev1 @ [ev2]))
              | None \<Rightarrow> (Inr result, st1, ev1))
           else (Inr result, st1, ev1))
        else (Inr result, st1, ev1))"

subsection \<open>Clock, calendar and configuration\<close>

text \<open>
  \<open>getKSTDate()\<close> returns a date whose local fields show the wall clock of UTC+9. A
  reading of it is modelled by the fields the scripts use: the number of the day
  (days since 1970-01-01, a Thursday) and the time of day. \<open>getDay\<close> is the weekday,
  0 for Sunday to 6 for Saturday. \<open>getTargetDate\<close> takes a reading of its own and moves
  it seven days on (\<open>setDate(getDate() + 7)\<close>).
\<close>

record kst_date =
  dayNumber :: nat
  hours :: int
  minutes :: int
  seconds :: int

definition getDay :: "kst_date \<Rightarrow> nat" where
  "getDay d = (dayNumber d + 4) mod 7"

record target_info =
  dayOfWeek :: nat
  dateObject :: kst_date

definition getTargetDate :: "kst_date \<Rightarrow> target_info" where
  "getTargetDate kstNow =
     (let targetDate = kstNow\<lparr>dayNumber := dayNumber kstNow + 7\<rparr> in
      \<lparr>dayOfWeek = getDay targetDate, dateObject = targetDate\<rparr>)"

text \<open>
  The fields of the instance that the constructor sets and nothing changes afterwards.
  \<open>targetHour\<close>, \<open>targetMinute\<close> and \<open>targetSecond\<close> are the three numbers of
  \<open>targetTime.split(':').map(Number)\<close>.
\<close>

record config =
  testMode :: bool
  executionMode :: string
  maxRetries :: int
  retryDelay :: nat
  immediateMode :: bool
  targetHour :: int
  targetMinute :: int
  targetSecond :: int
  maxWaitMinutes :: int

text \<open>
  The object written by \<open>saveResult\<close> (or \<open>fs.writeFile\<close>): its \<open>status\<close> and
  the properties \<open>retryCount\<close>, \<open>bookingSuccess\<close> and \<open>isWaitingReservation\<close>,
  \<open>None\<close> where the object has no such property. Its time stamp, date, message and
  metadata are not modelled.
\<close>

datatype run_status =
  SUCCESS | WAITING | ALREADY_BOOKED | ALREADY_WAITING | UNAVAILABLE | WEEKEND_SKIP | FAILED | TEST

record result_info =
  status :: run_status
  savedRetryCount :: "int option"
  savedBookingSuccess :: "bool option"
  savedIsWaitingReservation :: "bool option"

definition weekendSkip :: result_info where
  "weekendSkip =
     \<lparr>status = WEEKEND_SKIP, savedRetryCount = None, savedBookingSuccess = None,
      savedIsWaitingReservation = None\<rparr>"

subsection \<open>The day gate of \<open>init\<close> (lines 115 to 199)\<close>

text \<open>
  \<open>Some r\<close>: the script saves \<open>r\<close> and calls \<open>process.exit(0)\<close>. \<open>None\<close>: \<open>init\<close>
  returns and \<open>run\<close> goes on.
\<close>

definition PT_init :: "config \<Rightarrow> kst_date \<Rightarrow> result_info option" where
  "PT_init cfg kstNow =
     (let currentDayOfWeek = getDay kstNow in
      if \<not> testMode cfg \<and> executionMode cfg \<noteq> ''force'' \<and>
         executionMode cfg \<noteq> ''manual-force'' then
        (if currentDayOfWeek = 5 then Some weekendSkip
         else if currentDayOfWeek = 6 then Some weekendSkip
         else None)
      else None)"

subsection \<open>The precise wait (lines 202 to 336)\<close>

definition calculateWaitTime :: "config \<Rightarrow> kst_date \<Rightarrow> int" where
  "calculateWaitTime cfg now =
     (let currentTotalSeconds = hours now * 3600 + minutes now * 60 + seconds now;
          targetTotalSeconds0 = targetHour cfg * 3600 + targetMinute cfg * 60 + targetSecond cfg;
          targetTotalSeconds =
            (if 23 \<le> hours now \<and> targetHour cfg < 12 then targetTotalSeconds0 + 24 * 3600
             else targetTotalSeconds0)
      in max 0 (targetTotalSeconds - currentTotalSeconds))"

text \<open>
  The clock is what the environment gives: \<open>clk k\<close> is the \<open>k\<close>-th reading that the
  wait bases a decision on (readings taken for log lines only are left out). The loop
  over the minutes, \<open>for (let i = waitMinutes; i > 0; i--)\<close>, sleeps, reads the clock
  and leaves when at most 60 seconds remain. The result is the number of the next reading
  and the sleeps made (in milliseconds).
\<close>

fun coarseWait :: "config \<Rightarrow> (nat \<Rightarrow> kst_date) \<Rightarrow> nat \<Rightarrow> nat \<Rightarrow> nat list \<Rightarrow> nat \<times> nat list" where
  "coarseWait cfg clk 0 k sl = (k, sl)"
| "coarseWait cfg clk (Suc n) k sl =
     (let sl' = sl @ (if Suc n \<le> 2 then [30000, 30000] else [60000]) in
      if calculateWaitTime cfg (clk k) \<le> 60 then (k + 1, sl')
      else coarseWait cfg clk n (k + 1) sl')"

text \<open>The loop by seconds (lines 286 to 327): its two exit tests and its sleep.\<close>

definition timeMatch :: "config \<Rightarrow> kst_date \<Rightarrow> bool" where
  "timeMatch cfg now =
     (hours now = targetHour cfg \<and> minutes now = targetMinute cfg \<and>
      targetSecond cfg \<le> seconds now)"

definition currentTotal :: "kst_date \<Rightarrow> int" where
  "currentTotal now = hours now * 3600 + minutes now * 60 + seconds now"

definition targetTotal :: "config \<Rightarrow> int" where
  "targetTotal cfg = targetHour cfg * 3600 + targetMinute cfg * 60 + targetSecond cfg"

definition targetPassed :: "config \<Rightarrow> kst_date \<Rightarrow> bool" where
  "targetPassed cfg now = (targetTotal cfg < currentTotal now \<and> hours now < 23)"

definition fineSleep :: "config \<Rightarrow> kst_date \<Rightarrow> nat" where
  "fineSleep cfg now =
     (let remaining = targetTotal cfg - currentTotal now in
      if remaining \<le> 10 \<and> 0 < remaining then 200
      else if remaining \<le> 30 then 1000
      else 2000)"

text \<open>
  \<open>while (true)\<close>: the loop reads the clock, leaves on either test and sleeps
  otherwise. The result is the number of the reading at which it left; \<open>None\<close> is a
  loop that never leaves.
\<close>

partial_function (option) fineWait :: "config \<Rightarrow> (nat \<Rightarrow> kst_date) \<Rightarrow> nat \<Rightarrow> nat option" where
  "fineWait cfg clk k =
     (if timeMatch cfg (clk k) then Some k
      else if targetPassed cfg (clk k) then Some k
      else fineWait cfg clk (k + 1))"

text \<open>
  The whole wait. The result lists the sleeps made; \<open>None\<close> when the loop by seconds
  never leaves.
\<close>

definition PT_waitUntilTargetTime :: "config \<Rightarrow> (nat \<Rightarrow> kst_date) \<Rightarrow> nat list option" where
  "PT_waitUntilTargetTime cfg clk =
     (if immediateMode cfg then Some []
      else
        (let waitSeconds = calculateWaitTime cfg (clk 0);
             waitMinutes = waitSeconds div 60
         in
           if waitSeconds \<le> 0 then Some []
           else if maxWaitMinutes cfg < waitMinutes then Some []
           else
             (let c = (if 0 < waitMinutes then coarseWait cfg clk (nat waitMinutes) 1 []
                       else (1, []))
              in case fineWait cfg clk (fst c) of
                   None \<Rightarrow> None
                 | Some n \<Rightarrow> Some (snd c @ map (\<lambda>k. fineSleep cfg (clk k)) [fst c..<n]))))"

subsection \<open>The retry loop of \<open>run\<close> (lines 810 to 948)\<close>

text \<open>
  What the environment answers during one pass of the loop: whether \<open>login\<close> or
  \<open>navigateToBookingPage\<close> throws (with the message of the error), the answers of the
  page to \<open>find0930ClassAndBook\<close>, and the value of \<open>Math.random()\<close> (read only by
  the PilatesBooking script), a real number from 0 up to but not including 1.
\<close>

record attempt_env = find_env +
  loginError :: "jsstring option"
  navigateError :: "jsstring option"
  random :: real

text \<open>
  What a run leaves: the exit code of the process, the object saved last, the number of
  passes of the loop started (each launches a browser), the delays slept between them (in
  milliseconds), the clicks of each pass and the flags of the instance at the end.
\<close>

record 'f run_outcome =
  exitCode :: nat
  saved :: result_info
  attempts :: nat
  sleeps :: "nat list"
  clicks :: "page_event list list"
  endFlags :: 'f

definition PT_constructor_flags :: flags3 where
  "PT_constructor_flags =
     \<lparr>bookingSuccess = False, isWaitingReservation = False, hasConflictError = False\<rparr>"

text \<open>
  \<open>PT_attempt\<close> is steps 1 to 3 of the \<open>try\<close> block. Step 5 throws when the
  object returned is neither booked, already booked nor unavailable; the \<open>catch\<close>
  does not read the error it catches, so the loop below treats every error alike.
\<close>

definition PT_attempt ::
  "config \<Rightarrow> attempt_env \<Rightarrow> flags3 \<Rightarrow> (jsstring + scan_result) \<times> flags3 \<times> page_event list" where
  "PT_attempt cfg env st =
     (case loginError env of
        Some e \<Rightarrow> (Inl e, st, [])
      | None \<Rightarrow>
         (case navigateError env of
            Some e \<Rightarrow> (Inl e, st, [])
          | None \<Rightarrow> PT_find0930ClassAndBook (testMode cfg) env st))"

definition PT_resultInfo :: "config \<Rightarrow> scan_result \<Rightarrow> flags3 \<Rightarrow> nat \<Rightarrow> result_info" where
  "PT_resultInfo cfg result st retryCount =
     \<lparr>status =
        (if testMode cfg then TEST
         else if unavailable result then UNAVAILABLE
         else if alreadyBooked result then
           (if isWaiting result then ALREADY_WAITING else ALREADY_BOOKED)
         else (if isWaitingReservation st then WAITING else SUCCESS)),
      savedRetryCount = Some (int retryCount),
      savedBookingSuccess = Some (if unavailable result then False else bookingSuccess st),
      savedIsWaitingReservation = Some (isWaitingReservation st)\<rparr>"

definition PT_failedInfo :: "config \<Rightarrow> result_info" where
  "PT_failedInfo cfg =
     \<lparr>status = FAILED, savedRetryCount = Some (maxRetries cfg),
      savedBookingSuccess = Some False, savedIsWaitingReservation = None\<rparr>"

text \<open>
  \<open>while (retryCount < this.maxRetries && !success)\<close>. The environment of the pass
  numbered \<open>retryCount\<close> is \<open>envs retryCount\<close>: every pass that does not succeed
  adds one to \<open>retryCount\<close>.
\<close>

function PT_retryLoop ::
  "config \<Rightarrow> (nat \<Rightarrow> attempt_env) \<Rightarrow> nat \<Rightarrow> flags3 \<Rightarrow> nat list \<Rightarrow> page_event list list \<Rightarrow>
   flags3 run_outcome" where
  "PT_retryLoop cfg envs retryCount st sl evs =
     (if int retryCount < maxRetries cfg then
        (let r = PT_attempt cfg (envs retryCount) st;
             st' = fst (snd r);
             evs' = evs @ [snd (snd r)];
             sl' = (if int (retryCount + 1) < maxRetries cfg then sl @ [retryDelay cfg] else sl)
         in case fst r of
              Inr result \<Rightarrow>
                if booked result \<or> alreadyBooked result \<or> unavailable result then
                  \<lparr>exitCode = 0, saved = PT_resultInfo cfg result st' retryCount,
                   attempts = retryCount + 1, sleeps = sl, clicks = evs', endFlags = st'\<rparr>
                else PT_retryLoop cfg envs (retryCount + 1) st' sl' evs'
            | Inl e \<Rightarrow> PT_retryLoop cfg envs (retryCount + 1) st' sl' evs')
      else
        \<lparr>exitCode = 1, saved = PT_failedInfo cfg, attempts = retryCount, sleeps = sl,
         clicks = evs, endFlags = st\<rparr>)"
  by pat_completeness auto
termination
  by (relation "measure (\<lambda>(cfg, envs, retryCount, st, sl, evs). nat (maxRetries cfg - int retryCount))")
     auto

text \<open>
  What the environment gives to a run: the reading of the clock by \<open>init\<close>, the reading
  inside \<open>getTargetDate\<close> called by \<open>init\<close>, the readings of the wait, and the answers
  to each pass of the retry loop.
\<close>

record run_env =
  initNow :: kst_date
  initTargetNow :: kst_date
  waitClock :: "nat \<Rightarrow> kst_date"
  attemptEnv :: "nat \<Rightarrow> attempt_env"

text \<open>\<open>None\<close>: the run never gets past its wait.\<close>

definition PT_run :: "config \<Rightarrow> run_env \<Rightarrow> flags3 run_outcome option" where
  "PT_run cfg env =
     (case PT_init cfg (initNow env) of
        Some r \<Rightarrow>
          Some \<lparr>exitCode = 0, saved = r, attempts = 0, sleeps = [], clicks = [],
                endFlags = PT_constructor_flags\<rparr>
      | None \<Rightarrow>
         (case PT_waitUntilTargetTime cfg (waitClock env) of
            None \<Rightarrow> None
          | Some w \<Rightarrow>
              Some (PT_retryLoop cfg (attemptEnv env) 0 PT_constructor_flags [] [])))"

section \<open>GitHubOptimizedPilatesBooking (unnamed/part_000)\<close>

subsection \<open>The scan of the time table (part_000, lines 349 to 442)\<close>

text \<open>
  The row test, the time cell test and the choice of the action cell are the code of
  the first script (\<open>rowMatches\<close>, \<open>isTimeCell\<close>, \<open>actionCell\<close>, together
  \<open>slotCell\<close>). The object
  returned for an existing booking has no property \<open>isWaiting\<close>, and the message of the
  waitlist click differs.
\<close>

definition GH_examineRow :: "nat \<Rightarrow> tr_row \<Rightarrow> (scan_result \<times> page_event list) option" where
  "GH_examineRow i row =
     (case slotCell row of
        None \<Rightarrow> None
      | Some cell \<Rightarrow>
            (let actionText = str_trim (textContent cell)
             in
               if readsComplete actionText then
                 Some (\<lparr>found = True, booked = False, alreadyBooked = True,
                        isWaiting = False,
                        unavailable = False, isWaitingOnly = False, needSubmit = False,
                        message = msg_already (str_includes actionText kr_daegiwanryo)\<rparr>, [])
               else if str_includes actionText kr_yeyakhagi then
                 (if anchor cell then
                    Some (\<lparr>found = True, booked = True, alreadyBooked = False,
                           isWaiting = False, unavailable = False, isWaitingOnly = False,
                           needSubmit = True, message = msg_click\<rparr>, [ClickLink i])
                  else None)
               else if str_includes actionText kr_daegiyeyak then
                 (if anchor cell then
                    Some (\<lparr>found = True, booked = True, alreadyBooked = False,
                           isWaiting = False, unavailable = False, isWaitingOnly = True,
                           needSubmit = False, message = msg_wait\<rparr>, [ClickLink i])
                  else None)
               else if str_includes actionText kr_yeyakbulga then
                 Some (\<lparr>found = True, booked = False, alreadyBooked = False,
                        isWaiting = False, unavailable = True, isWaitingOnly = False,
                        needSubmit = False, message = msg_unavailable\<rparr>, [])
               else None))"

fun GH_scanRows :: "nat \<Rightarrow> tr_row list \<Rightarrow> scan_result \<times> page_event list" where
  "GH_scanRows i [] = (notFound, [])"
| "GH_scanRows i (row # rows) =
     (case GH_examineRow i row of
        Some r \<Rightarrow> r
      | None \<Rightarrow> GH_scanRows (i + 1) rows)"

subsection \<open>One booking attempt on the time table (part_000, lines 288 to 523)\<close>

text \<open>The message of the error thrown on a conflict: "simultaneous request collision".\<close>

definition err_conflict :: jsstring where
  "err_conflict = [46041, 49884, 49888, 52397, 32, 52649, 46028]"

definition GH_find0930ClassAndBook ::
  "bool \<Rightarrow> 'e find_env_scheme \<Rightarrow> flags4 \<Rightarrow> (jsstring + scan_result) \<times> flags4 \<times> page_event list" where
  "GH_find0930ClassAndBook testing env st =
     (let st0 = st\<lparr>hasConflictError := False, hasTimeoutError := False\<rparr>;
          scan = GH_scanRows 0 (pageRows env);
          result = fst scan;
          ev1 = snd scan;
          hs1 = snd (handleDialogs dialogHandler
                       (if ev1 = [] then [] else linkDialogs env) (False, st0));
          st1 = snd hs1
      in
        if unavailable result then (Inr result, st1, ev1)
        else if alreadyBooked result then
          (Inr result,
           (if str_includes (message result) kr_daegi
            then st1\<lparr>bookingSuccess := True, isWaitingReservation := True\<rparr>
            else st1\<lparr>bookingSuccess := True\<rparr>),
           ev1)
        else if booked result then
          (if isWaitingOnly result then (Inr result, st1, ev1)
           else if needSubmit result \<and> \<not> testing then
             (case submitStep env of
                Some ev2 \<Rightarrow>
                  (let st2 = snd (snd (handleDialogs dialogHandler (submitDialogs env) hs1)) in
                   if hasConflictError st2 then (Inl err_conflict, st2, ev1 @ [ev2])
                   else (Inr result, st2, ev1 @ [ev2]))
              | None \<Rightarrow> (Inr result, st1, ev1))
           else (Inr result, st1, ev1))
        else (Inr result, st1, ev1))"

subsection \<open>The day gate of \<open>init\<close> (part_000, lines 64 to 67 and 76 to 120)\<close>

definition isWeekend :: "kst_date \<Rightarrow> bool" where
  "isWeekend date = (let dayOfWeek = getDay date in dayOfWeek = 0 \<or> dayOfWeek = 6)"

definition GH_init :: "target_info \<Rightarrow> result_info option" where
  "GH_init targetInfo =
     (let targetDate = dateObject targetInfo in
      if isWeekend targetDate then Some weekendSkip else None)"

subsection \<open>The retry loop of \<open>run\<close> (part_000, lines 538 to 666)\<close>

definition constructor_flags :: flags4 where
  "constructor_flags =
     \<lparr>bookingSuccess = False, isWaitingReservation = False, hasConflictError = False,
      hasTimeoutError = False\<rparr>"

text \<open>The constructor sets \<open>maxRetries = 2\<close>, \<open>retryDelay = 500\<close> and \<open>quickRetry: true\<close>.\<close>

definition GH_maxRetries :: int where
  "GH_maxRetries = 2"

definition GH_retryDelay :: nat where
  "GH_retryDelay = 500"

definition GH_quickRetry :: bool where
  "GH_quickRetry = True"

definition GH_attempt ::
  "bool \<Rightarrow> attempt_env \<Rightarrow> flags4 \<Rightarrow> (jsstring + scan_result) \<times> flags4 \<times> page_event list" where
  "GH_attempt testing env st =
     (case loginError env of
        Some e \<Rightarrow> (Inl e, st, [])
      | None \<Rightarrow>
         (case navigateError env of
            Some e \<Rightarrow> (Inl e, st, [])
          | None \<Rightarrow> GH_find0930ClassAndBook testing env st))"

definition GH_resultInfo :: "bool \<Rightarrow> scan_result \<Rightarrow> flags4 \<Rightarrow> nat \<Rightarrow> result_info" where
  "GH_resultInfo testing result st retryCount =
     \<lparr>status =
        (if testing then TEST
         else if unavailable result then UNAVAILABLE
         else if alreadyBooked result then
           (if isWaitingReservation st then ALREADY_WAITING else ALREADY_BOOKED)
         else (if isWaitingReservation st then WAITING else SUCCESS)),
      savedRetryCount = Some (int retryCount),
      savedBookingSuccess = Some (if unavailable result then False else bookingSuccess st),
      savedIsWaitingReservation = Some (isWaitingReservation st)\<rparr>"

definition failedInfo :: result_info where
  "failedInfo =
     \<lparr>status = FAILED, savedRetryCount = None, savedBookingSuccess = Some False,
      savedIsWaitingReservation = None\<rparr>"

function GH_retryLoop ::
  "bool \<Rightarrow> (nat \<Rightarrow> attempt_env) \<Rightarrow> nat \<Rightarrow> flags4 \<Rightarrow> nat list \<Rightarrow> page_event list list \<Rightarrow>
   flags4 run_outcome" where
  "GH_retryLoop testing envs retryCount st sl evs =
     (if int retryCount < GH_maxRetries then
        (let r = GH_attempt testing (envs retryCount) st;
             st' = fst (snd r);
             evs' = evs @ [snd (snd r)];
             sl' = (if int (retryCount + 1) < GH_maxRetries \<and> GH_quickRetry
                    then sl @ [GH_retryDelay] else sl)
         in case fst r of
              Inr result \<Rightarrow>
                if booked result \<or> alreadyBooked result \<or> unavailable result then
                  \<lparr>exitCode = 0, saved = GH_resultInfo testing result st' retryCount,
                   attempts = retryCount + 1, sleeps = sl, clicks = evs', endFlags = st'\<rparr>
                else GH_retryLoop testing envs (retryCount + 1) st' sl' evs'
            | Inl e \<Rightarrow> GH_retryLoop testing envs (retryCount + 1) st' sl' evs')
      else
        \<lparr>exitCode = 1, saved = failedInfo, attempts = retryCount, sleeps = sl,
         clicks = evs, endFlags = st\<rparr>)"
  by pat_completeness auto
termination
  by (relation "measure (\<lambda>(testing, envs, retryCount, st, sl, evs). nat (GH_maxRetries - int retryCount))")
     auto

definition GH_run :: "bool \<Rightarrow> run_env \<Rightarrow> flags4 run_outcome" where
  "GH_run testing env =
     (case GH_init (getTargetDate (initTargetNow env)) of
        Some r \<Rightarrow>
          \<lparr>exitCode = 0, saved = r, attempts = 0, sleeps = [], clicks = [],
           endFlags = constructor_flags\<rparr>
      | None \<Rightarrow> GH_retryLoop testing (attemptEnv env) 0 constructor_flags [] [])"

section \<open>PilatesBooking (booking-script.js, lines 973 to 1962)\<close>

subsection \<open>The scan of the time table (lines 1388 to 1552)\<close>

definition PB_rowMatches :: "jsstring \<Rightarrow> bool" where
  "PB_rowMatches t =
     ((str_includes t t0930 \<or> str_includes t kr_09si30bun \<or> str_includes t t930) \<and>
      \<not> str_includes t kr_ohu \<and> \<not> str_includes t (ascii ''PM''))"

definition PB_isTimeCell :: "jsstring \<Rightarrow> bool" where
  "PB_isTimeCell cellText =
     (cellText = kr_ojeon @ ascii '' 09:30'' \<or> cellText = kr_ojeon @ ascii '' 9:30'' \<or>
      str_includes cellText t0930 \<or> str_includes cellText t930 \<or>
      str_includes cellText kr_09si30bun \<or> str_includes cellText kr_9si30bun)"

definition PB_actionCell :: "td_cell list \<Rightarrow> nat \<Rightarrow> td_cell" where
  "PB_actionCell cs j =
     (let lastCell = cs ! (length cs - 1) in
      if j < length cs - 1 then
        (let nextCell = cs ! (j + 1) in
         if str_includes (textContent nextCell) kr_yeyak \<or>
            str_includes (textContent nextCell) kr_daegi \<or>
            str_includes (textContent nextCell) kr_wanryo
         then nextCell else lastCell)
      else lastCell)"

text \<open>
  The first pass looks for an existing booking. Its inner loop runs over the cells
  \<open>js\<close> still to visit and stops (\<open>break\<close>) only at a time cell whose action cell
  reads complete; \<open>Some w\<close> is then the new value of \<open>hasExisting0930Booking = true\<close>
  with \<open>existingBookingType\<close> "waitlist booking" (\<open>w\<close> true) or "booking". The outer
  loop visits every row; a later row overwrites the type.
\<close>

primrec PB_checkCells :: "td_cell list \<Rightarrow> nat list \<Rightarrow> bool option" where
  "PB_checkCells cs [] = None"
| "PB_checkCells cs (j # js) =
     (if PB_isTimeCell (str_trim (textContent (cs ! j))) then
        (let actionText = str_trim (textContent (PB_actionCell cs j)) in
         if readsComplete actionText then Some (str_includes actionText kr_daegiwanryo)
         else PB_checkCells cs js)
      else PB_checkCells cs js)"

definition PB_existing :: "tr_row \<Rightarrow> bool option" where
  "PB_existing row =
     (if PB_rowMatches (rowText row) \<and> 3 \<le> length (cells row) then
        PB_checkCells (cells row) [0..<length (cells row)]
      else None)"

primrec PB_firstPass :: "tr_row list \<Rightarrow> bool option \<Rightarrow> bool option" where
  "PB_firstPass [] acc = acc"
| "PB_firstPass (row # rows) acc =
     PB_firstPass rows (case PB_existing row of Some w \<Rightarrow> Some w | None \<Rightarrow> acc)"

text \<open>
  The messages of this script: \<open>PB_msg_existing w\<close> is the template "class 09:30 ...
  is already complete - duplicate booking prevented" with "waitlist booking" or
  "booking" in the hole; \<open>PB_msg_wait_done\<close> "the waitlist booking of class 09:30 is
  already complete"; \<open>PB_msg_booked\<close> "class 09:30 is already booked".
\<close>

definition PB_msg_existing :: "bool \<Rightarrow> jsstring" where
  "PB_msg_existing w =
     t0930 @ [32, 49688, 50629, 32] @ (if w then kr_daegiyeyak else kr_yeyak) @
     [51060, 32, 51060, 48120, 32, 50756, 47308, 46120, 32, 45, 32, 51473, 48373, 32,
      50696, 50557, 32, 48169, 51648]"

definition PB_msg_wait_done :: jsstring where
  "PB_msg_wait_done =
     t0930 @ [32, 49688, 50629, 32, 45824, 44592, 50696, 50557, 51060, 32, 51060, 48120,
              32, 50756, 47308, 46120]"

definition PB_msg_booked :: jsstring where
  "PB_msg_booked =
     t0930 @ [32, 49688, 50629, 51008, 32, 51060, 48120, 32, 50696, 50557, 46120]"

text \<open>
  The second pass looks for a slot to book. Its inner loop stops at the first time cell
  of a row; \<open>PB_slotCell row\<close> is the action cell read there.
\<close>

definition PB_slotCell :: "tr_row \<Rightarrow> td_cell option" where
  "PB_slotCell row =
     (if PB_rowMatches (rowText row) \<and> 3 \<le> length (cells row) then
        (case firstIndex (\<lambda>c. PB_isTimeCell (str_trim (textContent c))) (cells row) of
           None \<Rightarrow> None
         | Some j \<Rightarrow> Some (PB_actionCell (cells row) j))
      else None)"

definition PB_examineRow :: "nat \<Rightarrow> tr_row \<Rightarrow> (scan_result \<times> page_event list) option" where
  "PB_examineRow i row =
     (case PB_slotCell row of
        None \<Rightarrow> None
      | Some cell \<Rightarrow>
            (let actionText = str_trim (textContent cell)
             in
               if str_includes actionText kr_yeyakhagi then
                 (if anchor cell then
                    Some (\<lparr>found = True, booked = True, alreadyBooked = False,
                           isWaiting = False, unavailable = False, isWaitingOnly = False,
                           needSubmit = True, message = msg_click\<rparr>, [ClickLink i])
                  else None)
               else if str_includes actionText kr_daegiyeyak then
                 (if anchor cell then
                    Some (\<lparr>found = True, booked = True, alreadyBooked = False,
                           isWaiting = False, unavailable = False, isWaitingOnly = True,
                           needSubmit = False, message = msg_wait\<rparr>, [ClickLink i])
                  else None)
               else if str_includes actionText kr_daegiwanryo then
                 Some (\<lparr>found = True, booked = False, alreadyBooked = True,
                        isWaiting = False, unavailable = False, isWaitingOnly = False,
                        needSubmit = False, message = PB_msg_wait_done\<rparr>, [])
               else if str_includes actionText kr_yeyakwanryo \<or>
                       str_includes actionText kr_sakje \<or> str_includes actionText kr_chwiso then
                 Some (\<lparr>found = True, booked = False, alreadyBooked = True,
                        isWaiting = False, unavailable = False, isWaitingOnly = False,
                        needSubmit = False, message = PB_msg_booked\<rparr>, [])
               else None))"

fun PB_secondPass :: "nat \<Rightarrow> tr_row list \<Rightarrow> scan_result \<times> page_event list" where
  "PB_secondPass i [] = (notFound, [])"
| "PB_secondPass i (row # rows) =
     (case PB_examineRow i row of
        Some r \<Rightarrow> r
      | None \<Rightarrow> PB_secondPass (i + 1) rows)"

definition PB_scan :: "tr_row list \<Rightarrow> scan_result \<times> page_event list" where
  "PB_scan allRows =
     (case PB_firstPass allRows None of
        Some w \<Rightarrow>
          (\<lparr>found = True, booked = False, alreadyBooked = True, isWaiting = False,
            unavailable = False, isWaitingOnly = False, needSubmit = False,
            message = PB_msg_existing w\<rparr>, [])
      | None \<Rightarrow> PB_secondPass 0 allRows)"

subsection \<open>The dialog handler (lines 1305 to 1382)\<close>

text \<open>
  The closure variable is \<open>waitingDialogHandled\<close>. One branch returns without a call
  of \<open>dialog.accept()\<close>: the waitlist question when it was handled before.
\<close>

definition PB_dialogHandler :: "jsstring \<Rightarrow> bool \<times> flags4 \<Rightarrow> bool \<times> (bool \<times> flags4)" where
  "PB_dialogHandler msg hs =
     (let waitingDialogHandled = fst hs; st = snd hs in
      if str_includes msg kr_jeongwon_chogwa \<and> str_includes msg kr_daegiyeyak_question then
        (if \<not> waitingDialogHandled then
           (True, (True, st\<lparr>isWaitingReservation := True, bookingSuccess := True\<rparr>))
         else (False, (waitingDialogHandled, st)))
      else if str_includes msg kr_yoilbyeol_wanryo then
        (True, (waitingDialogHandled, st\<lparr>bookingSuccess := True\<rparr>))
      else if str_includes msg kr_naljja_seontaek then
        (True, (waitingDialogHandled, st\<lparr>hasConflictError := True\<rparr>))
      else if str_includes msg kr_dongsisincheong \<or> str_includes msg kr_jamsi_hu then
        (True, (waitingDialogHandled, st\<lparr>bookingSuccess := False, hasConflictError := True\<rparr>))
      else if str_includes msg kr_siganchogwa \<or> str_includes msg (ascii ''time out'') then
        (True, (waitingDialogHandled, st\<lparr>bookingSuccess := False, hasTimeoutError := True\<rparr>))
      else if str_includes msg kr_yeyak \<and>
              (str_includes msg kr_wanryo \<or> str_includes msg kr_seonggong \<or>
               str_includes msg kr_deungrok) then
        (True, (waitingDialogHandled, st\<lparr>bookingSuccess := True\<rparr>))
      else if str_includes msg kr_no_time_selected \<or> str_includes msg kr_select_booking then
        (True, (waitingDialogHandled, st\<lparr>hasConflictError := True\<rparr>))
      else if str_includes msg kr_not_registered then
        (True, (waitingDialogHandled, st\<lparr>hasConflictError := True\<rparr>))
      else (True, (waitingDialogHandled, st)))"

subsection \<open>One booking attempt on the time table (lines 1290 to 1649)\<close>

definition PB_find0930ClassAndBook ::
  "bool \<Rightarrow> 'e find_env_scheme \<Rightarrow> flags4 \<Rightarrow> (jsstring + scan_result) \<times> flags4 \<times> page_event list" where
  "PB_find0930ClassAndBook testing env st =
     (let st0 = st\<lparr>hasConflictError := False, hasTimeoutError := False\<rparr>;
          scan = PB_scan (pageRows env);
          result = fst scan;
          ev1 = snd scan;
          hs1 = snd (handleDialogs PB_dialogHandler
                       (if ev1 = [] then [] else linkDialogs env) (False, st0));
          st1 = snd hs1
      in
        if alreadyBooked result then
          (Inr result,
           (if str_includes (message result) kr_daegi
            then st1\<lparr>bookingSuccess := True, isWaitingReservation := True\<rparr>
            else st1\<lparr>bookingSuccess := True\<rparr>),
           ev1)
        else if booked result then
          (if isWaitingOnly result then (Inr result, st1, ev1)
           else if needSubmit result \<and> \<not> testing then
             (case submitStep env of
                Some ev2 \<Rightarrow>
                  (let st2 = snd (snd (handleDialogs PB_dialogHandler (submitDialogs env) hs1)) in
                   if hasConflictError st2 then (Inl err_conflict, st2, ev1 @ [ev2])
                   else if hasTimeoutError st2 then (Inl kr_siganchogwa, st2, ev1 @ [ev2])
                   else (Inr result, st2, ev1 @ [ev2]))
              | None \<Rightarrow> (Inr result, st1, ev1))
           else (Inr result, st1, ev1))
        else (Inr result, st1, ev1))"

subsection \<open>The day gate of \<open>init\<close> (lines 1024 to 1031 and 1047 to 1108)\<close>

text \<open>\<open>isWeekend\<close> is the same code as in the GitHubOptimizedPilatesBooking script.\<close>

definition PB_init :: "target_info \<Rightarrow> result_info option" where
  "PB_init targetInfo =
     (let targetDate = dateObject targetInfo in
      if isWeekend targetDate then Some weekendSkip else None)"

subsection \<open>The retry loop of \<open>run\<close> (lines 1815 to 1961)\<close>

text \<open>The constructor sets \<open>maxRetries = 3\<close> and \<open>retryDelay = 1000\<close>.\<close>

definition PB_maxRetries :: int where
  "PB_maxRetries = 3"

definition PB_retryDelay :: nat where
  "PB_retryDelay = 1000"

definition PB_attempt ::
  "bool \<Rightarrow> attempt_env \<Rightarrow> flags4 \<Rightarrow> (jsstring + scan_result) \<times> flags4 \<times> page_event list" where
  "PB_attempt testing env st =
     (case loginError env of
        Some e \<Rightarrow> (Inl e, st, [])
      | None \<Rightarrow>
         (case navigateError env of
            Some e \<Rightarrow> (Inl e, st, [])
          | None \<Rightarrow> PB_find0930ClassAndBook testing env st))"

definition PB_resultInfo :: "bool \<Rightarrow> scan_result \<Rightarrow> flags4 \<Rightarrow> result_info" where
  "PB_resultInfo testing result st =
     \<lparr>status =
        (if testing then TEST
         else if alreadyBooked result then
           (if isWaitingReservation st then ALREADY_WAITING else ALREADY_BOOKED)
         else (if isWaitingReservation st then WAITING else SUCCESS)),
      savedRetryCount = None,
      savedBookingSuccess = Some (bookingSuccess st),
      savedIsWaitingReservation = Some (isWaitingReservation st)\<rparr>"

text \<open>
  The error of step 4 ("booking failed" when the slot was found, "class 09:30 cannot be
  found" otherwise) and the delay the \<open>catch\<close> block picks from the message of the
  error it caught; \<open>r\<close> is the value of \<open>Math.random()\<close>.
\<close>

definition PB_err_failed :: jsstring where
  "PB_err_failed = [50696, 50557, 32, 52376, 47532, 32, 49892, 54056]"

definition PB_delay :: "jsstring \<Rightarrow> real \<Rightarrow> nat" where
  "PB_delay errorMessage r =
     (if str_includes errorMessage kr_dongsisincheong then 3000 + nat \<lfloor>r * 2000\<rfloor>
      else if str_includes errorMessage kr_siganchogwa then 2000
      else if str_includes errorMessage kr_taim_seontaek then 1000
      else PB_retryDelay)"

text \<open>
  The \<open>catch\<close> block: it sleeps only when another pass follows. \<open>PB_afterCatch\<close>
  is the list of the delays slept so far, after it.
\<close>

definition PB_afterCatch :: "nat \<Rightarrow> nat list \<Rightarrow> jsstring \<Rightarrow> real \<Rightarrow> nat list" where
  "PB_afterCatch retryCount sl errorMessage r =
     (if int (retryCount + 1) < PB_maxRetries then sl @ [PB_delay errorMessage r] else sl)"

function PB_retryLoop ::
  "bool \<Rightarrow> (nat \<Rightarrow> attempt_env) \<Rightarrow> nat \<Rightarrow> flags4 \<Rightarrow> nat list \<Rightarrow> page_event list list \<Rightarrow>
   flags4 run_outcome" where
  "PB_retryLoop testing envs retryCount st sl evs =
     (if int retryCount < PB_maxRetries then
        (let r = PB_attempt testing (envs retryCount) st;
             st' = fst (snd r);
             evs' = evs @ [snd (snd r)]
         in case fst r of
              Inr result \<Rightarrow>
                if booked result \<or> alreadyBooked result then
                  \<lparr>exitCode = 0, saved = PB_resultInfo testing result st',
                   attempts = retryCount + 1, sleeps = sl, clicks = evs', endFlags = st'\<rparr>
                else
                  PB_retryLoop testing envs (retryCount + 1) st'
                    (PB_afterCatch retryCount sl
                       (if found result then PB_err_failed else msg_not_found)
                       (random (envs retryCount)))
                    evs'
            | Inl e \<Rightarrow>
                PB_retryLoop testing envs (retryCount + 1) st'
                  (PB_afterCatch retryCount sl e (random (envs retryCount))) evs')
      else
        \<lparr>exitCode = 1, saved = failedInfo, attempts = retryCount, sleeps = sl,
         clicks = evs, endFlags = st\<rparr>)"
  by pat_completeness auto
termination
  by (relation "measure (\<lambda>(testing, envs, retryCount, st, sl, evs). nat (PB_maxRetries - int retryCount))")
     auto

definition PB_run :: "bool \<Rightarrow> run_env \<Rightarrow> flags4 run_outcome" where
  "PB_run testing env =
     (case PB_init (getTargetDate (initTargetNow env)) of
        Some r \<Rightarrow>
          \<lparr>exitCode = 0, saved = r, attempts = 0, sleeps = [], clicks = [],
           endFlags = constructor_flags\<rparr>
      | None \<Rightarrow> PB_retryLoop testing (attemptEnv env) 0 constructor_flags [] [])"

section \<open>The classification of dialogs in the words of the specification\<close>

text \<open>
  The four rules of claim C6, in its order, the first match ending the classification:
  "capacity exceeded" together with "waitlist booking" is \<open>Waitlisted\<close>; "the booking
  count of the weekday is complete" is \<open>Booked\<close>; "simultaneous request" or "shortly
  after" is \<open>ConflictDetected\<close>; "booking" together with "complete" or "success" is
  \<open>Booked\<close>. \<open>class_effect\<close> is what an outcome means for the flags of the instance.
  Both definitions follow the claim, not the scripts; they are compared with the handlers
  of the scripts below.
\<close>

datatype dialog_class = Waitlisted | Booked | ConflictDetected | Unclassified

definition claimed_class :: "jsstring \<Rightarrow> dialog_class" where
  "claimed_class msg =
     (if str_includes msg kr_jeongwon_chogwa \<and> str_includes msg kr_daegiyeyak then Waitlisted
      else if str_includes msg kr_yoilbyeol_wanryo then Booked
      else if str_includes msg kr_dongsisincheong \<or> str_includes msg kr_jamsi_hu
        then ConflictDetected
      else if str_includes msg kr_yeyak \<and>
              (str_includes msg kr_wanryo \<or> str_includes msg kr_seonggong) then Booked
      else Unclassified)"

definition class_effect :: "dialog_class \<Rightarrow> 'a flags3_scheme \<Rightarrow> 'a flags3_scheme" where
  "class_effect c st =
     (case c of
        Waitlisted \<Rightarrow> st\<lparr>isWaitingReservation := True, bookingSuccess := True\<rparr>
      | Booked \<Rightarrow> st\<lparr>bookingSuccess := True\<rparr>
      | ConflictDetected \<Rightarrow> st\<lparr>hasConflictError := True\<rparr>
      | Unclassified \<Rightarrow> st)"

section \<open>Example inputs\<close>

text \<open>
  A time table row of three cells: the time "morning 09:30", a class name and the action
  cell with text \<open>a\<close>, holding a link or not. The text of the row is the text of its
  cells.
\<close>

definition ex_row :: "jsstring \<Rightarrow> bool \<Rightarrow> tr_row" where
  "ex_row a link =
     \<lparr>rowText = kr_ojeon @ ascii '' 09:30Pilates'' @ a,
      cells = [\<lparr>textContent = kr_ojeon @ ascii '' 09:30'', anchor = False\<rparr>,
               \<lparr>textContent = ascii ''Pilates'', anchor = False\<rparr>,
               \<lparr>textContent = a, anchor = link\<rparr>]\<rparr>"

text \<open>
  The answers of a page that shows the rows \<open>rs\<close>, raises the dialogs \<open>ds1\<close> at the
  click on the link and \<open>ds2\<close> after the submit, and has one submit button labelled
  "confirm" when \<open>sub\<close> is true, no submit element and no form otherwise.
\<close>

definition ex_env :: "tr_row list \<Rightarrow> jsstring list \<Rightarrow> bool \<Rightarrow> jsstring list \<Rightarrow> attempt_env" where
  "ex_env rs ds1 sub ds2 =
     \<lparr>pageRows = rs, linkDialogs = ds1, submitTexts = (if sub then [kr_hwagin] else []),
      formCount = 0, submitDialogs = ds2, loginError = None, navigateError = None,
      random = 1 / 2\<rparr>"

text \<open>
  A configuration of the first script: a scheduled run (neither test nor forced) with
  three tries, the delay 500 of the constructor and no wait. \<open>ex_day n\<close> is a reading of
  the clock at 23:55:00 on day \<open>n\<close>: day 4 is a Monday, day 8 a Friday, day 9 a
  Saturday, day 10 a Sunday.
\<close>

definition ex_cfg :: config where
  "ex_cfg =
     \<lparr>testMode = False, executionMode = ''scheduled'', maxRetries = 3, retryDelay = 500,
      immediateMode = True, targetHour = 0, targetMinute = 1, targetSecond = 0,
      maxWaitMinutes = 20\<rparr>"

definition ex_day :: "nat \<Rightarrow> kst_date" where
  "ex_day n = \<lparr>dayNumber = n, hours = 23, minutes = 55, seconds = 0\<rparr>"


definition ex_booked :: attempt_env where
  "ex_booked = ex_env [ex_row kr_yeyakhagi True] [] True [kr_yeyak @ [32] @ kr_wanryo]"

definition ex_unavailable :: attempt_env where
  "ex_unavailable = ex_env [ex_row kr_yeyakbulga False] [] False []"

text \<open>A run on day \<open>n\<close> whose passes get the answers \<open>envs\<close>.\<close>

definition ex_run_env :: "nat \<Rightarrow> (nat \<Rightarrow> attempt_env) \<Rightarrow> run_env" where
  "ex_run_env n envs =
     \<lparr>initNow = ex_day n, initTargetNow = ex_day n, waitClock = (\<lambda>k. ex_day n),
      attemptEnv = envs\<rparr>"

text \<open>
  Dialog texts: \<open>ex_msg_timeout\<close> "time exceeded, booking complete";
  \<open>ex_msg_waitlist\<close> "capacity exceeded. do you want a waitlist booking".
\<close>

definition ex_msg_timeout :: jsstring where
  "ex_msg_timeout = kr_siganchogwa @ [32] @ kr_yeyak @ [32] @ kr_wanryo"

definition ex_msg_waitlist :: jsstring where
  "ex_msg_waitlist = kr_jeongwon_chogwa @ [46, 32] @ kr_daegiyeyak_question"

section \<open>Facts about strings and lists\<close>

lemma startsWith_iff: "startsWith s p \<longleftrightarrow> (\<exists>b. s = p @ b)"
  by (induction s p rule: startsWith.induct) auto

text \<open>\<open>str_includes\<close> is the occurrence of a contiguous run.\<close>

lemma str_includes_iff: "str_includes s p \<longleftrightarrow> (\<exists>a b. s = a @ p @ b)"
proof (induction s)
  case Nil
  then show ?case by auto
next
  case (Cons c cs)
  show ?case
  proof
    assume "str_includes (c # cs) p"
    then consider "startsWith (c # cs) p" | "str_includes cs p" by auto
    then show "\<exists>a b. c # cs = a @ p @ b"
    proof cases
      case 1
      then obtain b where "c # cs = p @ b" by (auto simp: startsWith_iff)
      then have "c # cs = [] @ p @ b" by simp
      then show ?thesis by blast
    next
      case 2
      then obtain a b where "cs = a @ p @ b" using Cons.IH by blast
      then have "c # cs = (c # a) @ p @ b" by simp
      then show ?thesis by blast
    qed
  next
    assume "\<exists>a b. c # cs = a @ p @ b"
    then obtain a b where ab: "c # cs = a @ p @ b" by blast
    show "str_includes (c # cs) p"
    proof (cases a)
      case Nil
      then have "startsWith (c # cs) p" using ab by (simp add: startsWith_iff)
      then show ?thesis by simp
    next
      case (Cons x xs)
      then have "cs = xs @ p @ b" using ab by simp
      then have "str_includes cs p" using Cons.IH by blast
      then show ?thesis by simp
    qed
  qed
qed




section \<open>The duplicate-booking guard\<close>












section \<open>The retry loops, step by step\<close>

declare PT_retryLoop.simps [simp del]
declare GH_retryLoop.simps [simp del]
declare PB_retryLoop.simps [simp del]

lemma PT_retryLoop_done:
  assumes "int k < maxRetries cfg" and "fst (PT_attempt cfg (envs k) st) = Inr result"
    and "booked result \<or> alreadyBooked result \<or> unavailable result"
  shows "PT_retryLoop cfg envs k st sl evs =
           \<lparr>exitCode = 0,
            saved = PT_resultInfo cfg result (fst (snd (PT_attempt cfg (envs k) st))) k,
            attempts = k + 1, sleeps = sl,
            clicks = evs @ [snd (snd (PT_attempt cfg (envs k) st))],
            endFlags = fst (snd (PT_attempt cfg (envs k) st))\<rparr>"
  using assms by (subst PT_retryLoop.simps) (simp add: Let_def)




lemma GH_retryLoop_done:
  assumes "int k < GH_maxRetries" and "fst (GH_attempt testing (envs k) st) = Inr result"
    and "booked result \<or> alreadyBooked result \<or> unavailable result"
  shows "GH_retryLoop testing envs k st sl evs =
           \<lparr>exitCode = 0,
            saved = GH_resultInfo testing result (fst (snd (GH_attempt testing (envs k) st))) k,
            attempts = k + 1, sleeps = sl,
            clicks = evs @ [snd (snd (GH_attempt testing (envs k) st))],
            endFlags = fst (snd (GH_attempt testing (envs k) st))\<rparr>"
  using assms by (subst GH_retryLoop.simps) (simp add: Let_def)




lemma PB_retryLoop_done:
  assumes "int k < PB_maxRetries" and "fst (PB_attempt testing (envs k) st) = Inr result"
    and "booked result \<or> alreadyBooked result"
  shows "PB_retryLoop testing envs k st sl evs =
           \<lparr>exitCode = 0,
            saved = PB_resultInfo testing result (fst (snd (PB_attempt testing (envs k) st))),
            attempts = k + 1, sleeps = sl,
            clicks = evs @ [snd (snd (PB_attempt testing (envs k) st))],
            endFlags = fst (snd (PB_attempt testing (envs k) st))\<rparr>"
  using assms by (subst PB_retryLoop.simps) (simp add: Let_def)

lemma PB_retryLoop_fail:
  assumes "int k < PB_maxRetries" and "fst (PB_attempt testing (envs k) st) = Inl e"
  shows "PB_retryLoop testing envs k st sl evs =
           PB_retryLoop testing envs (k + 1) (fst (snd (PB_attempt testing (envs k) st)))
             (PB_afterCatch k sl e (random (envs k)))
             (evs @ [snd (snd (PB_attempt testing (envs k) st))])"
  using assms by (subst PB_retryLoop.simps) (simp add: Let_def)

lemma PB_retryLoop_other:
  assumes "int k < PB_maxRetries" and "fst (PB_attempt testing (envs k) st) = Inr result"
    and "\<not> (booked result \<or> alreadyBooked result)"
  shows "PB_retryLoop testing envs k st sl evs =
           PB_retryLoop testing envs (k + 1) (fst (snd (PB_attempt testing (envs k) st)))
             (PB_afterCatch k sl (if found result then PB_err_failed else msg_not_found)
                (random (envs k)))
             (evs @ [snd (snd (PB_attempt testing (envs k) st))])"
  using assms by (subst PB_retryLoop.simps) (simp add: Let_def)

lemma PB_retryLoop_exhausted:
  assumes "\<not> int k < PB_maxRetries"
  shows "PB_retryLoop testing envs k st sl evs =
           \<lparr>exitCode = 1, saved = failedInfo, attempts = k, sleeps = sl,
            clicks = evs, endFlags = st\<rparr>"
  using assms by (subst PB_retryLoop.simps) simp

section \<open>Retry accounting\<close>


section \<open>Evaluation on the example inputs\<close>

lemmas page_defs =
  slotCell_def PB_slotCell_def PB_existing_def ex_row_def rowMatches_def isTimeCell_def
  actionCell_def PB_rowMatches_def PB_isTimeCell_def PB_actionCell_def readsComplete_def
  str_trim_def isWhiteSpace_def submitStep_def isSubmitText_def Let_def
  PT_examineRow_def GH_examineRow_def PB_examineRow_def PB_scan_def notFound_def

lemmas attempt_defs =
  PT_attempt_def GH_attempt_def PB_attempt_def
  PT_find0930ClassAndBook_def GH_find0930ClassAndBook_def PB_find0930ClassAndBook_def
  dialogHandler_def PB_dialogHandler_def ex_env_def




section \<open>The shape of a run of the retry loop\<close>



lemma PB_loop_shape:
  "\<exists>rest. sleeps (PB_retryLoop testing envs k st sl evs) = sl @ rest \<and>
     (exitCode (PB_retryLoop testing envs k st sl evs) = 0 \<and>
        k < attempts (PB_retryLoop testing envs k st sl evs) \<or>
      exitCode (PB_retryLoop testing envs k st sl evs) = 1)"
proof (induction "nat (PB_maxRetries - int k)" arbitrary: k st sl evs)
  case 0
  then have "\<not> int k < PB_maxRetries" by simp
  then show ?case by (simp add: PB_retryLoop_exhausted)
next
  case (Suc n)
  then have lt: "int k < PB_maxRetries" and n: "n = nat (PB_maxRetries - int (k + 1))"
    by auto
  let ?a = "PB_attempt testing (envs k) st"
  have next_pass: "\<exists>rest.
      sleeps (PB_retryLoop testing envs (k + 1) (fst (snd ?a)) sl' (evs @ [snd (snd ?a)])) =
        sl' @ rest \<and>
      (exitCode (PB_retryLoop testing envs (k + 1) (fst (snd ?a)) sl' (evs @ [snd (snd ?a)])) = 0 \<and>
         k + 1 < attempts (PB_retryLoop testing envs (k + 1) (fst (snd ?a)) sl' (evs @ [snd (snd ?a)])) \<or>
       exitCode (PB_retryLoop testing envs (k + 1) (fst (snd ?a)) sl' (evs @ [snd (snd ?a)])) = 1)"
    for sl'
    using Suc.hyps(1)[OF n, of "fst (snd ?a)" sl' "evs @ [snd (snd ?a)]"] .
  show ?case
  proof (cases "fst ?a")
    case (Inl e)
    show ?thesis
      using next_pass [of "PB_afterCatch k sl e (random (envs k))"]
      by (auto simp: PB_retryLoop_fail[where envs = envs and k = k, OF lt Inl] PB_afterCatch_def
            split: if_splits)
  next
    case (Inr result)
    show ?thesis
    proof (cases "booked result \<or> alreadyBooked result")
      case True
      then show ?thesis
        by (simp add: PB_retryLoop_done[where envs = envs and k = k, OF lt Inr True])
    next
      case False
      show ?thesis
        using next_pass [of "PB_afterCatch k sl (if found result then PB_err_failed else msg_not_found) (random (envs k))"]
        by (auto simp: PB_retryLoop_other[where envs = envs and k = k, OF lt Inr False] PB_afterCatch_def
              split: if_splits)
    qed
  qed
qed

lemma PB_secondPass_available: "\<not> unavailable (fst (PB_secondPass i rows))"
  by (induction rows arbitrary: i)
     (auto simp: notFound_def PB_examineRow_def Let_def split: option.splits if_splits)

lemma PB_scan_available: "\<not> unavailable (fst (PB_scan rows))"
  by (simp add: PB_scan_def PB_secondPass_available split: option.splits)

section \<open>Terminal outcomes of the retry loop\<close>

text \<open>
  Claim C4, as amended. In the first and the third script a pass whose attempt returns an
  object that is booked (a click on "book now" or on "waitlist booking"), already booked
  or unavailable ends the loop: the run exits with code 0, no further pass is started and
  the status saved is not \<open>FAILED\<close>. In the second script only a booked or an already
  booked object ends the loop. Its scan never returns an unavailable object, and an
  object that is neither booked nor already booked is thrown as an error: the run then
  either starts a further pass or ends with exit code 1.
\<close>

theorem terminal_outcomes:
  "(int k < maxRetries cfg \<and> fst (PT_attempt cfg (envs k) st) = Inr result \<and>
    (booked result \<or> alreadyBooked result \<or> unavailable result) \<longrightarrow>
      exitCode (PT_retryLoop cfg envs k st sl evs) = 0 \<and>
      attempts (PT_retryLoop cfg envs k st sl evs) = k + 1 \<and>
      status (saved (PT_retryLoop cfg envs k st sl evs)) \<noteq> FAILED) \<and>
   (int k < GH_maxRetries \<and> fst (GH_attempt testing (envs k) fl) = Inr result \<and>
    (booked result \<or> alreadyBooked result \<or> unavailable result) \<longrightarrow>
      exitCode (GH_retryLoop testing envs k fl sl evs) = 0 \<and>
      attempts (GH_retryLoop testing envs k fl sl evs) = k + 1 \<and>
      status (saved (GH_retryLoop testing envs k fl sl evs)) \<noteq> FAILED) \<and>
   (int k < PB_maxRetries \<and> fst (PB_attempt testing (envs k) fl) = Inr result \<and>
    (booked result \<or> alreadyBooked result) \<longrightarrow>
      exitCode (PB_retryLoop testing envs k fl sl evs) = 0 \<and>
      attempts (PB_retryLoop testing envs k fl sl evs) = k + 1 \<and>
      status (saved (PB_retryLoop testing envs k fl sl evs)) \<noteq> FAILED) \<and>
   (int k < PB_maxRetries \<and> fst (PB_attempt testing (envs k) fl) = Inr result \<and>
    \<not> booked result \<and> \<not> alreadyBooked result \<longrightarrow>
      exitCode (PB_retryLoop testing envs k fl sl evs) = 1 \<or>
      k + 1 < attempts (PB_retryLoop testing envs k fl sl evs)) \<and>
   \<not> unavailable (fst (PB_scan rows))"
proof (intro conjI impI)
  assume h: "int k < maxRetries cfg \<and> fst (PT_attempt cfg (envs k) st) = Inr result \<and>
    (booked result \<or> alreadyBooked result \<or> unavailable result)"
  then have e: "PT_retryLoop cfg envs k st sl evs =
           \<lparr>exitCode = 0,
            saved = PT_resultInfo cfg result (fst (snd (PT_attempt cfg (envs k) st))) k,
            attempts = k + 1, sleeps = sl,
            clicks = evs @ [snd (snd (PT_attempt cfg (envs k) st))],
            endFlags = fst (snd (PT_attempt cfg (envs k) st))\<rparr>"
    using PT_retryLoop_done[where envs = envs and k = k] by blast
  show "exitCode (PT_retryLoop cfg envs k st sl evs) = 0"
    "attempts (PT_retryLoop cfg envs k st sl evs) = k + 1"
    "status (saved (PT_retryLoop cfg envs k st sl evs)) \<noteq> FAILED"
    by (simp_all add: e PT_resultInfo_def)
next
  assume h: "int k < GH_maxRetries \<and> fst (GH_attempt testing (envs k) fl) = Inr result \<and>
    (booked result \<or> alreadyBooked result \<or> unavailable result)"
  then have e: "GH_retryLoop testing envs k fl sl evs =
           \<lparr>exitCode = 0,
            saved = GH_resultInfo testing result (fst (snd (GH_attempt testing (envs k) fl))) k,
            attempts = k + 1, sleeps = sl,
            clicks = evs @ [snd (snd (GH_attempt testing (envs k) fl))],
            endFlags = fst (snd (GH_attempt testing (envs k) fl))\<rparr>"
    using GH_retryLoop_done[where envs = envs and k = k] by blast
  show "exitCode (GH_retryLoop testing envs k fl sl evs) = 0"
    "attempts (GH_retryLoop testing envs k fl sl evs) = k + 1"
    "status (saved (GH_retryLoop testing envs k fl sl evs)) \<noteq> FAILED"
    by (simp_all add: e GH_resultInfo_def)
next
  assume h: "int k < PB_maxRetries \<and> fst (PB_attempt testing (envs k) fl) = Inr result \<and>
    (booked result \<or> alreadyBooked result)"
  then have e: "PB_retryLoop testing envs k fl sl evs =
           \<lparr>exitCode = 0,
            saved = PB_resultInfo testing result (fst (snd (PB_attempt testing (envs k) fl))),
            attempts = k + 1, sleeps = sl,
            clicks = evs @ [snd (snd (PB_attempt testing (envs k) fl))],
            endFlags = fst (snd (PB_attempt testing (envs k) fl))\<rparr>"
    using PB_retryLoop_done[where envs = envs and k = k] by blast
  show "exitCode (PB_retryLoop testing envs k fl sl evs) = 0"
    "attempts (PB_retryLoop testing envs k fl sl evs) = k + 1"
    "status (saved (PB_retryLoop testing envs k fl sl evs)) \<noteq> FAILED"
    by (simp_all add: e PB_resultInfo_def)
next
  assume h: "int k < PB_maxRetries \<and> fst (PB_attempt testing (envs k) fl) = Inr result \<and>
    \<not> booked result \<and> \<not> alreadyBooked result"
  let ?a = "PB_attempt testing (envs k) fl"
  let ?sl = "PB_afterCatch k sl (if found result then PB_err_failed else msg_not_found)
                (random (envs k))"
  have e: "PB_retryLoop testing envs k fl sl evs =
           PB_retryLoop testing envs (k + 1) (fst (snd ?a)) ?sl (evs @ [snd (snd ?a)])"
    using h PB_retryLoop_other[where envs = envs and k = k and result = result] by blast
  show "exitCode (PB_retryLoop testing envs k fl sl evs) = 1 \<or>
      k + 1 < attempts (PB_retryLoop testing envs k fl sl evs)"
    unfolding e
    using PB_loop_shape[of testing envs "k + 1" "fst (snd ?a)" ?sl "evs @ [snd (snd ?a)]"]
    by blast
next
  show "\<not> unavailable (fst (PB_scan rows))" by (rule PB_scan_available)
qed

text \<open>
  The claim as stated fails on the second script: on a page whose action cell reads
  "booking not possible" every pass ends in the error "class 09:30 cannot be found", and
  the run of three passes ends with exit code 1 and the status \<open>FAILED\<close>.
\<close>

theorem terminal_outcomes_counterexample:
  "PB_slotCell (ex_row kr_yeyakbulga False) = Some \<lparr>textContent = kr_yeyakbulga, anchor = False\<rparr> \<and>
   exitCode (PB_run False (ex_run_env 4 (\<lambda>k. ex_unavailable))) = 1 \<and>
   attempts (PB_run False (ex_run_env 4 (\<lambda>k. ex_unavailable))) = 3 \<and>
   status (saved (PB_run False (ex_run_env 4 (\<lambda>k. ex_unavailable)))) = FAILED"
  by (simp add: PB_run_def PB_init_def getTargetDate_def isWeekend_def getDay_def ex_run_env_def
        ex_day_def PB_retryLoop.simps PB_maxRetries_def ex_unavailable_def attempt_defs
        page_defs failedInfo_def)

text \<open>
  The page that shows "booking not possible" ends the loops of the first and the third
  script after one pass; a booked page ends the loop of the second.
\<close>

theorem terminal_outcomes_witness:
  "exitCode (PT_retryLoop ex_cfg (\<lambda>k. ex_unavailable) 0 PT_constructor_flags [] []) = 0 \<and>
   attempts (PT_retryLoop ex_cfg (\<lambda>k. ex_unavailable) 0 PT_constructor_flags [] []) = 1 \<and>
   exitCode (GH_retryLoop False (\<lambda>k. ex_unavailable) 0 constructor_flags [] []) = 0 \<and>
   attempts (GH_retryLoop False (\<lambda>k. ex_unavailable) 0 constructor_flags [] []) = 1 \<and>
   exitCode (PB_retryLoop False (\<lambda>k. ex_booked) 0 constructor_flags [] []) = 0 \<and>
   attempts (PB_retryLoop False (\<lambda>k. ex_booked) 0 constructor_flags [] []) = 1 \<and>
   (exitCode (PB_retryLoop False (\<lambda>k. ex_unavailable) 0 constructor_flags [] []) = 1 \<or>
    1 < attempts (PB_retryLoop False (\<lambda>k. ex_unavailable) 0 constructor_flags [] []))"
proof -
  have m: "int 0 < maxRetries ex_cfg" "int 0 < GH_maxRetries" "int 0 < PB_maxRetries"
    by (simp_all add: ex_cfg_def GH_maxRetries_def PB_maxRetries_def)
  obtain r1 where r1: "fst (PT_attempt ex_cfg ex_unavailable PT_constructor_flags) = Inr r1"
    "unavailable r1"
    by (simp add: ex_unavailable_def ex_cfg_def attempt_defs page_defs)
  obtain r2 where r2: "fst (GH_attempt False ex_unavailable constructor_flags) = Inr r2"
    "unavailable r2"
    by (simp add: ex_unavailable_def attempt_defs page_defs)
  obtain r3 where r3: "fst (PB_attempt False ex_booked constructor_flags) = Inr r3"
    "booked r3"
    by (simp add: ex_booked_def attempt_defs page_defs)
  obtain r4 where r4: "fst (PB_attempt False ex_unavailable constructor_flags) = Inr r4"
    "\<not> booked r4" "\<not> alreadyBooked r4"
    by (simp add: ex_unavailable_def attempt_defs page_defs)
  show ?thesis
    using terminal_outcomes [where k = 0 and cfg = ex_cfg and envs = "\<lambda>k. ex_unavailable"
        and st = PT_constructor_flags and fl = constructor_flags and result = r1
        and sl = "[]" and evs = "[]" and testing = False]
      terminal_outcomes [where k = 0 and envs = "\<lambda>k. ex_unavailable"
        and fl = constructor_flags and result = r2
        and sl = "[]" and evs = "[]" and testing = False]
      terminal_outcomes [where k = 0 and envs = "\<lambda>k. ex_booked"
        and fl = constructor_flags and result = r3
        and sl = "[]" and evs = "[]" and testing = False]
      terminal_outcomes [where k = 0 and envs = "\<lambda>k. ex_unavailable"
        and fl = constructor_flags and result = r4
        and sl = "[]" and evs = "[]" and testing = False]
      m r1 r2 r3 r4
    by simp
qed

section \<open>The delay between two passes\<close>





section \<open>The day gate\<close>

lemma getDay_target: "getDay (dateObject (getTargetDate now)) = getDay now"
proof -
  have "(dayNumber now + 7 + 4) mod 7 = (dayNumber now + 4) mod 7" by presburger
  then show ?thesis by (simp add: getTargetDate_def getDay_def Let_def)
qed

lemma PB_init_eq:
  "PB_init (getTargetDate now) = (if getDay now = 0 \<or> getDay now = 6 then Some weekendSkip else None)"
  by (simp add: PB_init_def isWeekend_def getDay_target Let_def)

text \<open>
  Claim C2, as amended. In the first script (PreciseTimingPilatesBooking) the gate is as
  claimed: outside test mode and the two forced modes (\<open>force\<close>, \<open>manual-force\<close>), a
  run whose clock shows a Friday or a Saturday saves \<open>WEEKEND_SKIP\<close> and exits with
  code 0 before the wait and before any pass of the retry loop; on Sunday to Thursday,
  in test mode and in the forced modes \<open>init\<close> returns and the run goes on to its wait
  and its loop. The decision reads the weekday of the current day only: the reading
  taken for the target date has no effect on the run.

  In the second script (PilatesBooking) the gate reads the weekday of the target date,
  seven days after its reading of the clock and so the same weekday: the run is skipped
  on a Saturday and on a Sunday, goes on from Monday to Friday, and no mode lets a run
  pass the gate.
\<close>

theorem day_gate:
  "(\<not> testMode cfg \<and> executionMode cfg \<noteq> ''force'' \<and> executionMode cfg \<noteq> ''manual-force'' \<and>
    (getDay (initNow env) = 5 \<or> getDay (initNow env) = 6) \<longrightarrow>
      PT_run cfg env =
        Some \<lparr>exitCode = 0, saved = weekendSkip, attempts = 0, sleeps = [], clicks = [],
              endFlags = PT_constructor_flags\<rparr>) \<and>
   status weekendSkip = WEEKEND_SKIP \<and>
   PT_run cfg (env\<lparr>initTargetNow := d\<rparr>) = PT_run cfg env \<and>
   dayOfWeek (getTargetDate now) = getDay now \<and>
   (getDay (initNow env) < 5 \<or> testMode cfg \<or> executionMode cfg = ''force'' \<or>
    executionMode cfg = ''manual-force'' \<longrightarrow>
      PT_init cfg (initNow env) = None \<and>
      PT_run cfg env =
        map_option (\<lambda>w. PT_retryLoop cfg (attemptEnv env) 0 PT_constructor_flags [] [])
          (PT_waitUntilTargetTime cfg (waitClock env))) \<and>
   (getDay (initTargetNow env) = 0 \<or> getDay (initTargetNow env) = 6 \<longrightarrow>
      PB_run testing env =
        \<lparr>exitCode = 0, saved = weekendSkip, attempts = 0, sleeps = [], clicks = [],
         endFlags = constructor_flags\<rparr>) \<and>
   (0 < getDay (initTargetNow env) \<and> getDay (initTargetNow env) < 6 \<longrightarrow>
      PB_run testing env = PB_retryLoop testing (attemptEnv env) 0 constructor_flags [] [])"
proof (intro conjI impI)
  assume "\<not> testMode cfg \<and> executionMode cfg \<noteq> ''force'' \<and> executionMode cfg \<noteq> ''manual-force'' \<and>
    (getDay (initNow env) = 5 \<or> getDay (initNow env) = 6)"
  then have "PT_init cfg (initNow env) = Some weekendSkip"
    by (auto simp: PT_init_def Let_def)
  then show "PT_run cfg env =
        Some \<lparr>exitCode = 0, saved = weekendSkip, attempts = 0, sleeps = [], clicks = [],
              endFlags = PT_constructor_flags\<rparr>"
    by (simp add: PT_run_def)
next
  show "status weekendSkip = WEEKEND_SKIP" by (simp add: weekendSkip_def)
next
  show "PT_run cfg (env\<lparr>initTargetNow := d\<rparr>) = PT_run cfg env"
    by (simp add: PT_run_def split: option.splits)
next
  show "dayOfWeek (getTargetDate now) = getDay now"
    using getDay_target[of now] by (simp add: getTargetDate_def Let_def)
next
  assume h: "getDay (initNow env) < 5 \<or> testMode cfg \<or> executionMode cfg = ''force'' \<or>
    executionMode cfg = ''manual-force''"
  then show i: "PT_init cfg (initNow env) = None"
    by (auto simp: PT_init_def Let_def)
  show "PT_run cfg env =
        map_option (\<lambda>w. PT_retryLoop cfg (attemptEnv env) 0 PT_constructor_flags [] [])
          (PT_waitUntilTargetTime cfg (waitClock env))"
    by (simp add: PT_run_def i split: option.splits)
next
  assume "getDay (initTargetNow env) = 0 \<or> getDay (initTargetNow env) = 6"
  then show "PB_run testing env =
        \<lparr>exitCode = 0, saved = weekendSkip, attempts = 0, sleeps = [], clicks = [],
         endFlags = constructor_flags\<rparr>"
    by (auto simp: PB_run_def PB_init_eq)
next
  assume "0 < getDay (initTargetNow env) \<and> getDay (initTargetNow env) < 6"
  then show "PB_run testing env = PB_retryLoop testing (attemptEnv env) 0 constructor_flags [] []"
    by (auto simp: PB_run_def PB_init_eq)
qed

text \<open>
  The claim as stated fails on the second script: on a Friday its run books, on a Sunday
  it is skipped, and on a Saturday it is skipped in test mode too.
\<close>

theorem day_gate_counterexample:
  "getDay (ex_day 8) = 5 \<and>
   attempts (PB_run False (ex_run_env 8 (\<lambda>k. ex_booked))) = 1 \<and>
   status (saved (PB_run False (ex_run_env 8 (\<lambda>k. ex_booked)))) = SUCCESS \<and>
   getDay (ex_day 10) = 0 \<and>
   attempts (PB_run False (ex_run_env 10 (\<lambda>k. ex_booked))) = 0 \<and>
   status (saved (PB_run False (ex_run_env 10 (\<lambda>k. ex_booked)))) = WEEKEND_SKIP \<and>
   getDay (ex_day 9) = 6 \<and>
   attempts (PB_run True (ex_run_env 9 (\<lambda>k. ex_booked))) = 0 \<and>
   status (saved (PB_run True (ex_run_env 9 (\<lambda>k. ex_booked)))) = WEEKEND_SKIP"
  by (simp add: PB_run_def PB_init_eq ex_run_env_def ex_day_def getDay_def weekendSkip_def
        PB_retryLoop.simps PB_maxRetries_def PB_resultInfo_def ex_booked_def attempt_defs
        page_defs constructor_flags_def)

text \<open>
  The gate of the first script on a Friday, a Saturday and a Sunday of a scheduled run,
  on a Friday of a forced run and on a Saturday in test mode; the gate of the second
  script on a Monday.
\<close>

theorem day_gate_witness:
  "getDay (ex_day 8) = 5 \<and>
   PT_run ex_cfg (ex_run_env 8 (\<lambda>k. ex_booked)) =
     Some \<lparr>exitCode = 0, saved = weekendSkip, attempts = 0, sleeps = [], clicks = [],
           endFlags = PT_constructor_flags\<rparr> \<and>
   getDay (ex_day 9) = 6 \<and>
   PT_run ex_cfg (ex_run_env 9 (\<lambda>k. ex_booked)) =
     Some \<lparr>exitCode = 0, saved = weekendSkip, attempts = 0, sleeps = [], clicks = [],
           endFlags = PT_constructor_flags\<rparr> \<and>
   getDay (ex_day 10) = 0 \<and> PT_init ex_cfg (ex_day 10) = None \<and>
   PT_init (ex_cfg\<lparr>executionMode := ''force''\<rparr>) (ex_day 8) = None \<and>
   PT_init (ex_cfg\<lparr>testMode := True\<rparr>) (ex_day 9) = None \<and>
   getDay (ex_day 4) = 1 \<and>
   PB_run False (ex_run_env 4 (\<lambda>k. ex_booked)) =
     PB_retryLoop False (\<lambda>k. ex_booked) 0 constructor_flags [] []"
proof -
  have d: "getDay (ex_day 8) = 5" "getDay (ex_day 9) = 6" "getDay (ex_day 10) = 0"
    "getDay (ex_day 4) = 1"
    by (simp_all add: ex_day_def getDay_def)
  have c: "\<not> testMode ex_cfg" "executionMode ex_cfg \<noteq> ''force''"
    "executionMode ex_cfg \<noteq> ''manual-force''"
    by (simp_all add: ex_cfg_def)
  have e: "initNow (ex_run_env n envs) = ex_day n" "initTargetNow (ex_run_env n envs) = ex_day n"
    "attemptEnv (ex_run_env n envs) = envs" for n envs
    by (simp_all add: ex_run_env_def)
  show ?thesis
    using day_gate [where cfg = ex_cfg and env = "ex_run_env 8 (\<lambda>k. ex_booked)"]
      day_gate [where cfg = ex_cfg and env = "ex_run_env 9 (\<lambda>k. ex_booked)"]
      day_gate [where cfg = ex_cfg and env = "ex_run_env 10 (\<lambda>k. ex_booked)"]
      day_gate [where cfg = "ex_cfg\<lparr>executionMode := ''force''\<rparr>"
        and env = "ex_run_env 8 (\<lambda>k. ex_booked)"]
      day_gate [where cfg = "ex_cfg\<lparr>testMode := True\<rparr>"
        and env = "ex_run_env 9 (\<lambda>k. ex_booked)"]
      day_gate [where env = "ex_run_env 4 (\<lambda>k. ex_booked)" and testing = False]
    by (simp add: d c e)
qed

section \<open>The dialog handlers\<close>

lemma dialogHandler_handled: "dialogHandler m (True, st) = (True, (True, st))"
  by (simp add: dialogHandler_def)

lemma handleDialogs_handled:
  "handleDialogs dialogHandler ms (True, st) = (replicate (length ms) True, (True, st))"
  by (induction ms) (simp_all add: dialogHandler_handled Let_def)

lemma dialogHandler_first:
  "dialogHandler m (False, st) = (True, (True, class_effect (claimed_class m) st))"
  by (auto simp: dialogHandler_def claimed_class_def class_effect_def)

lemma handleDialogs_first:
  "handleDialogs dialogHandler (m # ms) (False, st) =
     (replicate (Suc (length ms)) True, snd (dialogHandler m (False, st)))"
  by (simp add: dialogHandler_first handleDialogs_handled Let_def)

lemma PT_scan_booked_click:
  "booked (fst (PT_scanRows i rows)) \<Longrightarrow> snd (PT_scanRows i rows) \<noteq> []"
  by (induction rows arbitrary: i)
     (auto simp: notFound_def PT_examineRow_def Let_def split: option.splits if_splits)

lemma GH_scan_booked_click:
  "booked (fst (GH_scanRows i rows)) \<Longrightarrow> snd (GH_scanRows i rows) \<noteq> []"
  by (induction rows arbitrary: i)
     (auto simp: notFound_def GH_examineRow_def Let_def split: option.splits if_splits)



lemma PT_later_dialogs:
  fixes env :: "'e find_env_scheme"
  shows "PT_find0930ClassAndBook testing (env\<lparr>linkDialogs := m # ms, submitDialogs := ds\<rparr>) st =
     PT_find0930ClassAndBook testing (env\<lparr>linkDialogs := [m], submitDialogs := []\<rparr>) st"
proof (cases "snd (PT_scanRows 0 (pageRows env)) = []")
  case True
  then have "\<not> booked (fst (PT_scanRows 0 (pageRows env)))"
    using PT_scan_booked_click by blast
  then show ?thesis using True by (simp add: PT_find0930ClassAndBook_def Let_def)
next
  case False
  then show ?thesis
    by (simp add: PT_find0930ClassAndBook_def Let_def dialogHandler_first
          handleDialogs_handled submitStep_def split: option.splits)
qed

lemma PT_later_submit_dialogs:
  fixes env :: "'e find_env_scheme"
  shows "PT_find0930ClassAndBook testing (env\<lparr>linkDialogs := [], submitDialogs := m # ms\<rparr>) st =
     PT_find0930ClassAndBook testing (env\<lparr>linkDialogs := [], submitDialogs := [m]\<rparr>) st"
  by (simp add: PT_find0930ClassAndBook_def Let_def dialogHandler_first
        handleDialogs_handled submitStep_def split: option.splits)

lemma GH_later_dialogs:
  fixes env :: "'e find_env_scheme"
  shows "GH_find0930ClassAndBook testing (env\<lparr>linkDialogs := m # ms, submitDialogs := ds\<rparr>) st =
     GH_find0930ClassAndBook testing (env\<lparr>linkDialogs := [m], submitDialogs := []\<rparr>) st"
proof (cases "snd (GH_scanRows 0 (pageRows env)) = []")
  case True
  then have "\<not> booked (fst (GH_scanRows 0 (pageRows env)))"
    using GH_scan_booked_click by blast
  then show ?thesis using True by (simp add: GH_find0930ClassAndBook_def Let_def)
next
  case False
  then show ?thesis
    by (simp add: GH_find0930ClassAndBook_def Let_def dialogHandler_first
          handleDialogs_handled submitStep_def split: option.splits)
qed

lemma GH_later_submit_dialogs:
  fixes env :: "'e find_env_scheme"
  shows "GH_find0930ClassAndBook testing (env\<lparr>linkDialogs := [], submitDialogs := m # ms\<rparr>) st =
     GH_find0930ClassAndBook testing (env\<lparr>linkDialogs := [], submitDialogs := [m]\<rparr>) st"
  by (simp add: GH_find0930ClassAndBook_def Let_def dialogHandler_first
        handleDialogs_handled submitStep_def split: option.splits)

lemma PB_handler_question:
  "str_includes q kr_jeongwon_chogwa \<and> str_includes q kr_daegiyeyak_question \<Longrightarrow>
     snd (PB_dialogHandler q (True, fl)) = (True, fl)"
  by (simp add: PB_dialogHandler_def)

lemma if_chain_state:
  "(if c1 then (True, (w, a1)) else if c2 then (True, (w, a2)) else if c3 then (True, (w, a3))
    else if c4 then (True, (w, a4)) else if c5 then (True, (w, a5))
    else if c6 then (True, (w, a6)) else if c7 then (True, (w, a7)) else (True, (w, a8))) =
   (True, (w, snd (snd
     (if c1 then (True, (False, a1)) else if c2 then (True, (False, a2))
      else if c3 then (True, (False, a3)) else if c4 then (True, (False, a4))
      else if c5 then (True, (False, a5)) else if c6 then (True, (False, a6))
      else if c7 then (True, (False, a7)) else (True, (False, a8))))))"
  by simp

lemma PB_handler_other:
  assumes "\<not> (str_includes m kr_jeongwon_chogwa \<and> str_includes m kr_daegiyeyak_question)"
  shows "PB_dialogHandler m (w, fl) = (True, (w, snd (snd (PB_dialogHandler m (False, fl)))))"
proof -
  have nq: "(str_includes m kr_jeongwon_chogwa \<and> str_includes m kr_daegiyeyak_question) = False"
    using assms by simp
  show ?thesis
    unfolding PB_dialogHandler_def Let_def fst_conv snd_conv nq if_False
    by (rule if_chain_state)
qed


text \<open>
  Claim C7, as amended. In the first and the third script the handler classifies the
  first dialog of an attempt only: it sets its guard, and once the guard is set every
  dialog is accepted and the flags stay as they are, so an attempt with the dialogs
  \<open>m # ms\<close> after the click ends as the attempt with the single dialog \<open>m\<close>, and the
  dialogs after the submit click do not count once a dialog followed the first click.
  The second script has no such guard: every dialog is classified. Only its waitlist
  question is guarded, and a repeated question leaves the flags alone; any other
  message changes the flags in the same way whether or not a dialog came before it.
\<close>

theorem first_dialog_only:
  fixes st :: "'a flags3_scheme" and env :: "'e find_env_scheme"
  shows
  "handleDialogs dialogHandler (m # ms) (False, st) =
     (replicate (Suc (length ms)) True, snd (dialogHandler m (False, st))) \<and>
   dialogHandler m (True, st) = (True, (True, st)) \<and>
   PT_find0930ClassAndBook testing (env\<lparr>linkDialogs := m # ms, submitDialogs := ds\<rparr>) pt =
     PT_find0930ClassAndBook testing (env\<lparr>linkDialogs := [m], submitDialogs := []\<rparr>) pt \<and>
   PT_find0930ClassAndBook testing (env\<lparr>linkDialogs := [], submitDialogs := m # ms\<rparr>) pt =
     PT_find0930ClassAndBook testing (env\<lparr>linkDialogs := [], submitDialogs := [m]\<rparr>) pt \<and>
   GH_find0930ClassAndBook testing (env\<lparr>linkDialogs := m # ms, submitDialogs := ds\<rparr>) fl =
     GH_find0930ClassAndBook testing (env\<lparr>linkDialogs := [m], submitDialogs := []\<rparr>) fl \<and>
   GH_find0930ClassAndBook testing (env\<lparr>linkDialogs := [], submitDialogs := m # ms\<rparr>) fl =
     GH_find0930ClassAndBook testing (env\<lparr>linkDialogs := [], submitDialogs := [m]\<rparr>) fl \<and>
   (str_includes q kr_jeongwon_chogwa \<and> str_includes q kr_daegiyeyak_question \<longrightarrow>
      snd (PB_dialogHandler q (True, fl)) = (True, fl)) \<and>
   (\<not> (str_includes m kr_jeongwon_chogwa \<and> str_includes m kr_daegiyeyak_question) \<longrightarrow>
      PB_dialogHandler m (w, fl) = (True, (w, snd (snd (PB_dialogHandler m (False, fl))))))"
proof (intro conjI impI)
  show "handleDialogs dialogHandler (m # ms) (False, st) =
     (replicate (Suc (length ms)) True, snd (dialogHandler m (False, st)))"
    by (rule handleDialogs_first)
  show "dialogHandler m (True, st) = (True, (True, st))"
    by (rule dialogHandler_handled)
  show "PT_find0930ClassAndBook testing (env\<lparr>linkDialogs := m # ms, submitDialogs := ds\<rparr>) pt =
     PT_find0930ClassAndBook testing (env\<lparr>linkDialogs := [m], submitDialogs := []\<rparr>) pt"
    by (rule PT_later_dialogs)
  show "PT_find0930ClassAndBook testing (env\<lparr>linkDialogs := [], submitDialogs := m # ms\<rparr>) pt =
     PT_find0930ClassAndBook testing (env\<lparr>linkDialogs := [], submitDialogs := [m]\<rparr>) pt"
    by (rule PT_later_submit_dialogs)
  show "GH_find0930ClassAndBook testing (env\<lparr>linkDialogs := m # ms, submitDialogs := ds\<rparr>) fl =
     GH_find0930ClassAndBook testing (env\<lparr>linkDialogs := [m], submitDialogs := []\<rparr>) fl"
    by (rule GH_later_dialogs)
  show "GH_find0930ClassAndBook testing (env\<lparr>linkDialogs := [], submitDialogs := m # ms\<rparr>) fl =
     GH_find0930ClassAndBook testing (env\<lparr>linkDialogs := [], submitDialogs := [m]\<rparr>) fl"
    by (rule GH_later_submit_dialogs)
  show "snd (PB_dialogHandler q (True, fl)) = (True, fl)"
    if "str_includes q kr_jeongwon_chogwa \<and> str_includes q kr_daegiyeyak_question"
    using that by (rule PB_handler_question)
  show "PB_dialogHandler m (w, fl) = (True, (w, snd (snd (PB_dialogHandler m (False, fl)))))"
    if "\<not> (str_includes m kr_jeongwon_chogwa \<and> str_includes m kr_daegiyeyak_question)"
    using that by (rule PB_handler_other)
qed

text \<open>
  In the second script a second dialog does change the outcome of the attempt. After
  the click on the booking link the page answers that the weekly booking is complete,
  which sets \<open>bookingSuccess\<close>; the conflict message that follows the submit click is
  classified as well, clears \<open>bookingSuccess\<close>, sets \<open>hasConflictError\<close> and makes the
  attempt throw, where the attempt with the first dialog alone returns its result.
\<close>

theorem first_dialog_only_counterexample:
  "snd (snd (handleDialogs PB_dialogHandler [kr_yoilbyeol_wanryo] (False, constructor_flags))) =
     constructor_flags\<lparr>bookingSuccess := True\<rparr> \<and>
   snd (snd (handleDialogs PB_dialogHandler [kr_yoilbyeol_wanryo, kr_dongsisincheong]
               (False, constructor_flags))) =
     constructor_flags\<lparr>hasConflictError := True\<rparr> \<and>
   fst (PB_find0930ClassAndBook False
          (ex_env [ex_row kr_yeyakhagi True] [kr_yoilbyeol_wanryo] True [kr_dongsisincheong])
          constructor_flags) = Inl err_conflict \<and>
   \<not> isl (fst (PB_find0930ClassAndBook False
          (ex_env [ex_row kr_yeyakhagi True] [kr_yoilbyeol_wanryo] True [])
          constructor_flags))"
  by (simp add: attempt_defs page_defs constructor_flags_def)

theorem first_dialog_only_witness:
  "handleDialogs dialogHandler [kr_yoilbyeol_wanryo, kr_dongsisincheong]
     (False, constructor_flags) =
     ([True, True], (True, constructor_flags\<lparr>bookingSuccess := True\<rparr>)) \<and>
   snd (PB_dialogHandler ex_msg_waitlist (True, constructor_flags)) = (True, constructor_flags) \<and>
   PB_dialogHandler kr_dongsisincheong (True, constructor_flags) =
     (True, (True, constructor_flags\<lparr>bookingSuccess := False, hasConflictError := True\<rparr>))"
proof -
  have a: "str_includes ex_msg_waitlist kr_jeongwon_chogwa \<and>
           str_includes ex_msg_waitlist kr_daegiyeyak_question"
    by (simp add: ex_msg_waitlist_def)
  have b: "\<not> (str_includes kr_dongsisincheong kr_jeongwon_chogwa \<and>
               str_includes kr_dongsisincheong kr_daegiyeyak_question)"
    by simp
  have c: "snd (dialogHandler kr_yoilbyeol_wanryo (False, constructor_flags)) =
           (True, constructor_flags\<lparr>bookingSuccess := True\<rparr>)"
    by (simp add: dialogHandler_def)
  have d: "snd (snd (PB_dialogHandler kr_dongsisincheong (False, constructor_flags))) =
           constructor_flags\<lparr>bookingSuccess := False, hasConflictError := True\<rparr>"
    by (simp add: PB_dialogHandler_def)
  have w1: "handleDialogs dialogHandler (kr_yoilbyeol_wanryo # [kr_dongsisincheong])
              (False, constructor_flags) =
            (replicate (Suc (length [kr_dongsisincheong])) True,
             snd (dialogHandler kr_yoilbyeol_wanryo (False, constructor_flags)))"
    using first_dialog_only [where m = kr_yoilbyeol_wanryo and ms = "[kr_dongsisincheong]"
        and st = constructor_flags] by (rule conjunct1)
  have w2: "snd (PB_dialogHandler ex_msg_waitlist (True, constructor_flags)) =
            (True, constructor_flags)"
    using first_dialog_only [where q = ex_msg_waitlist and fl = constructor_flags] a by blast
  have w3: "PB_dialogHandler kr_dongsisincheong (True, constructor_flags) =
            (True, (True, snd (snd (PB_dialogHandler kr_dongsisincheong (False, constructor_flags)))))"
    using first_dialog_only [where m = kr_dongsisincheong and w = True and fl = constructor_flags]
      b by blast
  show ?thesis
    unfolding w2 w3 d using w1 c by simp
qed

lemma includes_not_registered:
  "str_includes m kr_not_registered \<Longrightarrow> str_includes m kr_deungrok"
proof -
  assume "str_includes m kr_not_registered"
  then obtain a b where "m = a @ kr_not_registered @ b" by (auto simp: str_includes_iff)
  then have "m = a @ kr_deungrok @ ([46104, 50612, 32, 51080, 51648, 32, 50506, 49845, 45768, 45796] @ b)"
    by simp
  then show ?thesis unfolding str_includes_iff by blast
qed

lemma includes_question:
  "str_includes m kr_daegiyeyak_question \<Longrightarrow> str_includes m kr_daegiyeyak"
proof -
  assume "str_includes m kr_daegiyeyak_question"
  then obtain a b where "m = a @ kr_daegiyeyak_question @ b" by (auto simp: str_includes_iff)
  then have "m = a @ kr_daegiyeyak @ ([51012, 32, 54616, 49884, 44192, 49845, 45768, 44620] @ b)"
    by simp
  then show ?thesis unfolding str_includes_iff by blast
qed

text \<open>
  Claim C6, as amended. In the first and the third script the first dialog of an
  attempt is classified by the four rules of the specification, in their order, the
  first match deciding, and the flags are set from the class. The second script agrees
  with the four rules on a message that names neither a date to select, nor a timeout,
  nor a registration, nor a time or booking to select, and that asks the waitlist
  question whenever it speaks of a full class and of the waitlist; there a conflict
  also clears \<open>bookingSuccess\<close>. Outside of these messages the second script has rules
  of its own, placed before the rule for a completed booking: a date to select is a
  conflict, and a timeout clears \<open>bookingSuccess\<close> and sets \<open>hasTimeoutError\<close>.
\<close>

theorem dialog_classification:
  fixes st :: "'a flags3_scheme"
  shows
  "dialogHandler msg (False, st) = (True, (True, class_effect (claimed_class msg) st)) \<and>
   (\<not> str_includes msg kr_naljja_seontaek \<and> \<not> str_includes msg kr_siganchogwa \<and>
    \<not> str_includes msg (ascii ''time out'') \<and> \<not> str_includes msg kr_deungrok \<and>
    \<not> str_includes msg kr_no_time_selected \<and> \<not> str_includes msg kr_select_booking \<and>
    (str_includes msg kr_jeongwon_chogwa \<and> str_includes msg kr_daegiyeyak \<longrightarrow>
       str_includes msg kr_daegiyeyak_question) \<longrightarrow>
      snd (snd (PB_dialogHandler msg (False, fl))) =
        (case claimed_class msg of
           Waitlisted \<Rightarrow> fl\<lparr>isWaitingReservation := True, bookingSuccess := True\<rparr>
         | Booked \<Rightarrow> fl\<lparr>bookingSuccess := True\<rparr>
         | ConflictDetected \<Rightarrow> fl\<lparr>bookingSuccess := False, hasConflictError := True\<rparr>
         | Unclassified \<Rightarrow> fl)) \<and>
   (\<not> (str_includes msg kr_jeongwon_chogwa \<and> str_includes msg kr_daegiyeyak_question) \<and>
    \<not> str_includes msg kr_yoilbyeol_wanryo \<and> str_includes msg kr_naljja_seontaek \<longrightarrow>
      snd (snd (PB_dialogHandler msg (w, fl))) = fl\<lparr>hasConflictError := True\<rparr>) \<and>
   (\<not> (str_includes msg kr_jeongwon_chogwa \<and> str_includes msg kr_daegiyeyak_question) \<and>
    \<not> str_includes msg kr_yoilbyeol_wanryo \<and> \<not> str_includes msg kr_naljja_seontaek \<and>
    \<not> str_includes msg kr_dongsisincheong \<and> \<not> str_includes msg kr_jamsi_hu \<and>
    (str_includes msg kr_siganchogwa \<or> str_includes msg (ascii ''time out'')) \<longrightarrow>
      snd (snd (PB_dialogHandler msg (w, fl))) =
        fl\<lparr>bookingSuccess := False, hasTimeoutError := True\<rparr>)"
proof (intro conjI impI)
  show "dialogHandler msg (False, st) = (True, (True, class_effect (claimed_class msg) st))"
    by (rule dialogHandler_first)
next
  assume h: "\<not> str_includes msg kr_naljja_seontaek \<and> \<not> str_includes msg kr_siganchogwa \<and>
    \<not> str_includes msg (ascii ''time out'') \<and> \<not> str_includes msg kr_deungrok \<and>
    \<not> str_includes msg kr_no_time_selected \<and> \<not> str_includes msg kr_select_booking \<and>
    (str_includes msg kr_jeongwon_chogwa \<and> str_includes msg kr_daegiyeyak \<longrightarrow>
       str_includes msg kr_daegiyeyak_question)"
  then have nr: "\<not> str_includes msg kr_not_registered"
    using includes_not_registered by blast
  have q: "(str_includes msg kr_jeongwon_chogwa \<and> str_includes msg kr_daegiyeyak_question) =
           (str_includes msg kr_jeongwon_chogwa \<and> str_includes msg kr_daegiyeyak)"
    using h includes_question by blast
  show "snd (snd (PB_dialogHandler msg (False, fl))) =
        (case claimed_class msg of
           Waitlisted \<Rightarrow> fl\<lparr>isWaitingReservation := True, bookingSuccess := True\<rparr>
         | Booked \<Rightarrow> fl\<lparr>bookingSuccess := True\<rparr>
         | ConflictDetected \<Rightarrow> fl\<lparr>bookingSuccess := False, hasConflictError := True\<rparr>
         | Unclassified \<Rightarrow> fl)"
    unfolding PB_dialogHandler_def claimed_class_def Let_def q
    using h nr by (simp; blast)
next
  assume h: "\<not> (str_includes msg kr_jeongwon_chogwa \<and> str_includes msg kr_daegiyeyak_question) \<and>
    \<not> str_includes msg kr_yoilbyeol_wanryo \<and> str_includes msg kr_naljja_seontaek"
  then have nq: "(str_includes msg kr_jeongwon_chogwa \<and> str_includes msg kr_daegiyeyak_question) = False"
    by simp
  show "snd (snd (PB_dialogHandler msg (w, fl))) = fl\<lparr>hasConflictError := True\<rparr>"
    unfolding PB_dialogHandler_def Let_def nq using h by simp
next
  assume h: "\<not> (str_includes msg kr_jeongwon_chogwa \<and> str_includes msg kr_daegiyeyak_question) \<and>
    \<not> str_includes msg kr_yoilbyeol_wanryo \<and> \<not> str_includes msg kr_naljja_seontaek \<and>
    \<not> str_includes msg kr_dongsisincheong \<and> \<not> str_includes msg kr_jamsi_hu \<and>
    (str_includes msg kr_siganchogwa \<or> str_includes msg (ascii ''time out''))"
  then have nq: "(str_includes msg kr_jeongwon_chogwa \<and> str_includes msg kr_daegiyeyak_question) = False"
    by simp
  have t: "(str_includes msg kr_siganchogwa \<or> str_includes msg (ascii ''time out'')) = True"
    using h by simp
  show "snd (snd (PB_dialogHandler msg (w, fl))) =
        fl\<lparr>bookingSuccess := False, hasTimeoutError := True\<rparr>"
    unfolding PB_dialogHandler_def Let_def nq t using h by simp
qed

text \<open>
  The message "time exceeded, booking complete" holds the booking word and the word
  for complete, and none of the phrases of the first three rules: the four rules give
  Booked. The second script takes it for a timeout, before it looks for a booking.
\<close>

theorem dialog_classification_counterexample:
  "str_includes ex_msg_timeout kr_yeyak \<and> str_includes ex_msg_timeout kr_wanryo \<and>
   \<not> str_includes ex_msg_timeout kr_jeongwon_chogwa \<and>
   \<not> str_includes ex_msg_timeout kr_yoilbyeol_wanryo \<and>
   \<not> str_includes ex_msg_timeout kr_dongsisincheong \<and>
   \<not> str_includes ex_msg_timeout kr_jamsi_hu \<and>
   claimed_class ex_msg_timeout = Booked \<and>
   PB_dialogHandler ex_msg_timeout (False, constructor_flags\<lparr>bookingSuccess := True\<rparr>) =
     (True, (False, constructor_flags\<lparr>hasTimeoutError := True\<rparr>))"
  by (simp add: ex_msg_timeout_def claimed_class_def PB_dialogHandler_def constructor_flags_def)

theorem dialog_classification_witness:
  "dialogHandler ex_msg_waitlist (False, constructor_flags) =
     (True, (True, constructor_flags\<lparr>bookingSuccess := True, isWaitingReservation := True\<rparr>)) \<and>
   dialogHandler kr_yoilbyeol_wanryo (False, PT_constructor_flags) =
     (True, (True, PT_constructor_flags\<lparr>bookingSuccess := True\<rparr>)) \<and>
   dialogHandler (kr_dongsisincheong @ [32] @ kr_jamsi_hu) (False, PT_constructor_flags) =
     (True, (True, PT_constructor_flags\<lparr>hasConflictError := True\<rparr>)) \<and>
   dialogHandler (kr_yeyak @ [32] @ kr_wanryo) (False, PT_constructor_flags) =
     (True, (True, PT_constructor_flags\<lparr>bookingSuccess := True\<rparr>)) \<and>
   snd (snd (PB_dialogHandler ex_msg_waitlist (False, constructor_flags))) =
     constructor_flags\<lparr>bookingSuccess := True, isWaitingReservation := True\<rparr> \<and>
   snd (snd (PB_dialogHandler ex_msg_timeout (False, constructor_flags))) =
     constructor_flags\<lparr>hasTimeoutError := True\<rparr>"
proof -
  have c: "claimed_class ex_msg_waitlist = Waitlisted" "claimed_class kr_yoilbyeol_wanryo = Booked"
    "claimed_class (kr_dongsisincheong @ [32] @ kr_jamsi_hu) = ConflictDetected"
    "claimed_class (kr_yeyak @ [32] @ kr_wanryo) = Booked"
    by (simp_all add: claimed_class_def ex_msg_waitlist_def)
  have s: "\<not> str_includes ex_msg_waitlist kr_naljja_seontaek \<and>
    \<not> str_includes ex_msg_waitlist kr_siganchogwa \<and>
    \<not> str_includes ex_msg_waitlist (ascii ''time out'') \<and>
    \<not> str_includes ex_msg_waitlist kr_deungrok \<and>
    \<not> str_includes ex_msg_waitlist kr_no_time_selected \<and>
    \<not> str_includes ex_msg_waitlist kr_select_booking \<and>
    str_includes ex_msg_waitlist kr_daegiyeyak_question"
    by (simp add: ex_msg_waitlist_def)
  have t: "\<not> (str_includes ex_msg_timeout kr_jeongwon_chogwa \<and>
               str_includes ex_msg_timeout kr_daegiyeyak_question) \<and>
    \<not> str_includes ex_msg_timeout kr_yoilbyeol_wanryo \<and>
    \<not> str_includes ex_msg_timeout kr_naljja_seontaek \<and>
    \<not> str_includes ex_msg_timeout kr_dongsisincheong \<and>
    \<not> str_includes ex_msg_timeout kr_jamsi_hu \<and>
    (str_includes ex_msg_timeout kr_siganchogwa \<or> str_includes ex_msg_timeout (ascii ''time out''))"
    by (simp add: ex_msg_timeout_def)
  have w1: "snd (snd (PB_dialogHandler ex_msg_waitlist (False, constructor_flags))) =
     (case claimed_class ex_msg_waitlist of
           Waitlisted \<Rightarrow> constructor_flags\<lparr>isWaitingReservation := True, bookingSuccess := True\<rparr>
         | Booked \<Rightarrow> constructor_flags\<lparr>bookingSuccess := True\<rparr>
         | ConflictDetected \<Rightarrow> constructor_flags\<lparr>bookingSuccess := False, hasConflictError := True\<rparr>
         | Unclassified \<Rightarrow> constructor_flags)"
    using dialog_classification [where msg = ex_msg_waitlist and fl = constructor_flags] s
    by blast
  have w2: "snd (snd (PB_dialogHandler ex_msg_timeout (False, constructor_flags))) =
        constructor_flags\<lparr>bookingSuccess := False, hasTimeoutError := True\<rparr>"
    using dialog_classification [where msg = ex_msg_timeout and fl = constructor_flags
        and w = False] t
    by blast
  have v1: "dialogHandler ex_msg_waitlist (False, constructor_flags) =
      (True, (True, class_effect (claimed_class ex_msg_waitlist) constructor_flags))"
    using dialog_classification [where msg = ex_msg_waitlist and st = constructor_flags]
    by (rule conjunct1)
  have v2: "dialogHandler kr_yoilbyeol_wanryo (False, PT_constructor_flags) =
      (True, (True, class_effect (claimed_class kr_yoilbyeol_wanryo) PT_constructor_flags))"
    using dialog_classification [where msg = kr_yoilbyeol_wanryo and st = PT_constructor_flags]
    by (rule conjunct1)
  have v3: "dialogHandler (kr_dongsisincheong @ [32] @ kr_jamsi_hu) (False, PT_constructor_flags) =
      (True, (True, class_effect (claimed_class (kr_dongsisincheong @ [32] @ kr_jamsi_hu))
         PT_constructor_flags))"
    using dialog_classification [where msg = "kr_dongsisincheong @ [32] @ kr_jamsi_hu"
        and st = PT_constructor_flags]
    by (rule conjunct1)
  have v4: "dialogHandler (kr_yeyak @ [32] @ kr_wanryo) (False, PT_constructor_flags) =
      (True, (True, class_effect (claimed_class (kr_yeyak @ [32] @ kr_wanryo))
         PT_constructor_flags))"
    using dialog_classification [where msg = "kr_yeyak @ [32] @ kr_wanryo"
        and st = PT_constructor_flags]
    by (rule conjunct1)
  show ?thesis
    unfolding w1 w2 v1 v2 v3 v4 c
    by (simp add: class_effect_def constructor_flags_def)
qed



section \<open>The flags at the start of an attempt\<close>





















section \<open>Where the conflict flag is read\<close>
















section \<open>The loop by seconds of the precise wait\<close>








end
